theory Spec2Isabelle
  imports Complex_Main "HOL-Library.AList" "HOL-Library.Multiset"
begin

section \<open>Python values and the \<open>%s\<close> conversion\<close>

text \<open>
  The notebook \<open>examples/FermiLATLike_example.ipynb\<close> formats strings, integers and
  floating-point numbers with \<open>'%s' % x\<close>. A Python float is modelled by the real number
  it denotes; how \<open>str\<close> prints a float is not part of the notebook and is a parameter
  \<open>fs\<close> of every function that formats one.
\<close>

datatype pyval = PyStr string | PyInt int | PyFloat real

definition digit_char :: "nat \<Rightarrow> char" where
  "digit_char d = ''0123456789'' ! d"

fun str_nat :: "nat \<Rightarrow> string" where
  "str_nat n = (if n < 10 then [digit_char n] else str_nat (n div 10) @ [digit_char (n mod 10)])"

declare str_nat.simps [simp del]

definition str_int :: "int \<Rightarrow> string" where
  "str_int i = (if i < 0 then CHR ''-'' # str_nat (nat (- i)) else str_nat (nat i))"

fun py_str :: "(real \<Rightarrow> string) \<Rightarrow> pyval \<Rightarrow> string" where
  "py_str fs (PyStr s) = s"
| "py_str fs (PyInt i) = str_int i"
| "py_str fs (PyFloat x) = fs x"

text \<open>The slice \<open>s[:-2]\<close>: all but the last two characters, the empty string when there
  are fewer than two.\<close>

definition drop_last2 :: "string \<Rightarrow> string" where
  "drop_last2 s = take (length s - 2) s"

text \<open>\<open>sep.join(xs)\<close>, the reference the interval strings are compared with.\<close>

fun py_join :: "string \<Rightarrow> string list \<Rightarrow> string" where
  "py_join sep [] = []"
| "py_join sep [x] = x"
| "py_join sep (x # y # ys) = x @ sep @ py_join sep (y # ys)"

section \<open>The dictionary \<open>args\<close> of \<open>doLAT\<close>\<close>

text \<open>
  A dictionary is an association list with distinct keys; \<open>args[k] = v\<close> is
  \<open>AList.update k v\<close>. The order in which \<open>args.items()\<close> yields the entries is not fixed by
  the language of the notebook's kernel (Python 2), so it is a parameter \<open>items\<close>.
\<close>

type_synonym pydict = "(string \<times> pyval) list"

definition assign_all :: "(string \<times> pyval) list \<Rightarrow> pydict \<Rightarrow> pydict" where
  "assign_all kvs d = foldl (\<lambda>d (k, v). AList.update k v d) d kvs"

text \<open>The loop \<open>for t0,t1 in zip(TSTARTS,TSTOPS)\<close> with its two accumulators.\<close>

fun interval_loop ::
  "(real \<Rightarrow> string) \<Rightarrow> (pyval \<times> pyval) list \<Rightarrow> string \<times> string \<Rightarrow> string \<times> string" where
  "interval_loop fs [] acc = acc"
| "interval_loop fs ((t0, t1) # ps) (TSTARTS_str, TSTOPS_str) =
     interval_loop fs ps (TSTARTS_str @ py_str fs t0 @ '', '', TSTOPS_str @ py_str fs t1 @ '', '')"

definition interval_strings ::
  "(real \<Rightarrow> string) \<Rightarrow> pyval list \<Rightarrow> pyval list \<Rightarrow> string \<times> string" where
  "interval_strings fs TSTARTS TSTOPS =
     (let (TSTARTS_str, TSTOPS_str) = interval_loop fs (zip TSTARTS TSTOPS) ('''', '''')
      in (drop_last2 TSTARTS_str, drop_last2 TSTOPS_str))"

definition quoted :: "string \<Rightarrow> string" where
  "quoted s = CHR 0x27 # s @ [CHR 0x27]"

definition doLAT_args ::
  "(real \<Rightarrow> string) \<Rightarrow> pyval \<Rightarrow> pyval \<Rightarrow> pyval \<Rightarrow> pyval list \<Rightarrow> pyval list \<Rightarrow>
   pyval \<Rightarrow> pyval \<Rightarrow> pyval \<Rightarrow> pyval \<Rightarrow> pyval \<Rightarrow> pyval \<Rightarrow> pydict" where
  "doLAT_args fs OUTFILE RA DEC TSTARTS TSTOPS ROI ZMAX EMIN EMAX IRF data_path =
     (let (TSTARTS_str, TSTOPS_str) = interval_strings fs TSTARTS TSTOPS
      in assign_all
          [(''outfile'', OUTFILE),
           (''ra'', RA),
           (''dec'', DEC),
           (''roi'', ROI),
           (''tstarts'', PyStr (quoted TSTARTS_str)),
           (''tstops'', PyStr (quoted TSTOPS_str)),
           (''zmax'', ZMAX),
           (''emin'', EMIN),
           (''emax'', EMAX),
           (''irf'', IRF),
           (''galactic_model'', PyStr (quoted ''template (fixed norm.)'')),
           (''particle_model'', PyStr (quoted ''isotr template'')),
           (''tsmin'', PyInt 25),
           (''strategy'', PyStr ''time''),
           (''thetamax'', PyInt 180),
           (''spectralfiles'', PyStr ''yes''),
           (''liketype'', PyStr ''unbinned''),
           (''optimizeposition'', PyStr ''no''),
           (''datarepository'', data_path),
           (''flemin'', PyFloat 100),
           (''flemax'', PyInt 10000),
           (''fgl_mode'', PyStr ''fast'')]
          [])"


text \<open>The command line: \<open>exe\<close> extended by \<open>' --%s %s' % (k,i)\<close> for every entry that
  \<open>args.items()\<close> yields, then by \<open>' %s' % triggername\<close>.\<close>

definition exe_path :: string where
  "exe_path = ''$CONDA_PREFIX/lib/python2.7/site-packages/fermitools/GtBurst/scripts/doTimeResolvedLike.py''"

definition add_option :: "(real \<Rightarrow> string) \<Rightarrow> string \<Rightarrow> string \<times> pyval \<Rightarrow> string" where
  "add_option fs exe ki = (case ki of (k, i) \<Rightarrow> exe @ '' --'' @ k @ '' '' @ py_str fs i)"

definition doLAT_command ::
  "(real \<Rightarrow> string) \<Rightarrow> (pydict \<Rightarrow> pydict) \<Rightarrow> pyval \<Rightarrow> pyval \<Rightarrow> pyval \<Rightarrow> pyval list \<Rightarrow>
   pyval list \<Rightarrow> pyval \<Rightarrow> pyval \<Rightarrow> pyval \<Rightarrow> pyval \<Rightarrow> pyval \<Rightarrow> pyval \<Rightarrow> string" where
  "doLAT_command fs items OUTFILE RA DEC TSTARTS TSTOPS ROI ZMAX EMIN EMAX IRF data_path =
     (let args = doLAT_args fs OUTFILE RA DEC TSTARTS TSTOPS ROI ZMAX EMIN EMAX IRF data_path;
          triggername = OUTFILE;
          exe = foldl (add_option fs) exe_path (items args)
      in exe @ '' '' @ py_str fs triggername)"

section \<open>The operating system as seen by the notebook\<close>

text \<open>
  What the notebook does not define is a parameter: the shell behind \<open>os.system\<close> (it gets
  the command, the working directory and the file system, and gives back an exit status and
  the file system it leaves; a child process cannot move the working directory of the
  notebook), the directory \<open>os.chdir\<close> arrives in (\<open>None\<close> when it raises \<open>OSError\<close>), the
  matches of \<open>glob.glob\<close>, and \<open>os.path.expandvars\<close>. The file system \<open>'fs\<close> stays abstract.
\<close>

record 'fs env =
  float_str :: "real \<Rightarrow> string"
  dict_items :: "pydict \<Rightarrow> pydict"
  shell :: "string \<Rightarrow> string \<Rightarrow> 'fs \<Rightarrow> int \<times> 'fs"
  resolve_dir :: "'fs \<Rightarrow> string \<Rightarrow> string \<Rightarrow> string option"
  glob_glob :: "'fs \<Rightarrow> string \<Rightarrow> string \<Rightarrow> string list"
  expandvars :: "string \<Rightarrow> string"

datatype error = OSError | IndexError | AttributeError

datatype event =
    System string
  | Chdir string
  | Print string
  | Glob string
  | Call string "string list"

record 'fs world =
  cwd :: string
  files :: "'fs"
  trace :: "event list"

definition os_system :: "'fs env \<Rightarrow> string \<Rightarrow> 'fs world \<Rightarrow> int \<times> 'fs world" where
  "os_system E command w =
     (case shell E command (cwd w) (files w) of
        (status, fs') \<Rightarrow> (status, w\<lparr>files := fs', trace := trace w @ [System command]\<rparr>))"

definition os_chdir :: "'fs env \<Rightarrow> string \<Rightarrow> 'fs world \<Rightarrow> error + 'fs world" where
  "os_chdir E path w =
     (case resolve_dir E (files w) (cwd w) path of
        None \<Rightarrow> Inl OSError
      | Some d \<Rightarrow> Inr (w\<lparr>cwd := d, trace := trace w @ [Chdir path]\<rparr>))"

definition py_print :: "string \<Rightarrow> 'fs world \<Rightarrow> 'fs world" where
  "py_print s w = w\<lparr>trace := trace w @ [Print s]\<rparr>"

definition record_call :: "string \<Rightarrow> string list \<Rightarrow> 'fs world \<Rightarrow> 'fs world" where
  "record_call f xs w = w\<lparr>trace := trace w @ [Call f xs]\<rparr>"

section \<open>\<open>doLAT\<close>\<close>

definition analysis_dir_name :: "(real \<Rightarrow> string) \<Rightarrow> pyval \<Rightarrow> pyval \<Rightarrow> pyval \<Rightarrow> string" where
  "analysis_dir_name fs OUTFILE EMIN EMAX =
     py_str fs OUTFILE @ ''_analysis_'' @ py_str fs EMIN @ ''-'' @ py_str fs EMAX"

definition doLAT ::
  "'fs env \<Rightarrow> pyval \<Rightarrow> pyval \<Rightarrow> pyval \<Rightarrow> pyval list \<Rightarrow> pyval list \<Rightarrow>
   pyval \<Rightarrow> pyval \<Rightarrow> pyval \<Rightarrow> pyval \<Rightarrow> pyval \<Rightarrow> pyval \<Rightarrow> 'fs world \<Rightarrow> error + string \<times> 'fs world" where
  "doLAT E OUTFILE RA DEC TSTARTS TSTOPS ROI ZMAX EMIN EMAX IRF data_path w =
     (let analysis_dir = analysis_dir_name (float_str E) OUTFILE EMIN EMAX;
          w1 = snd (os_system E (''mkdir -p '' @ analysis_dir) w)
      in case os_chdir E analysis_dir w1 of
           Inl e \<Rightarrow> Inl e
         | Inr w2 \<Rightarrow>
             (let exe = doLAT_command (float_str E) (dict_items E) OUTFILE RA DEC TSTARTS TSTOPS
                          ROI ZMAX EMIN EMAX IRF data_path;
                  w3 = py_print exe w2;
                  w4 = snd (os_system E exe w3)
              in Inr (analysis_dir, w4)))"

text \<open>A call that leaves the keyword arguments at their defaults
  \<open>ROI=5.0, ZMAX=105, EMIN=65, EMAX=100000, IRF='p8_transient010e', data_path='./'\<close>.\<close>

definition doLAT_default ::
  "'fs env \<Rightarrow> pyval \<Rightarrow> pyval \<Rightarrow> pyval \<Rightarrow> pyval list \<Rightarrow> pyval list \<Rightarrow> 'fs world \<Rightarrow>
   error + string \<times> 'fs world" where
  "doLAT_default E OUTFILE RA DEC TSTARTS TSTOPS w =
     doLAT E OUTFILE RA DEC TSTARTS TSTOPS (PyFloat 5) (PyInt 105) (PyInt 65) (PyInt 100000)
       (PyStr ''p8_transient010e'') (PyStr ''./'') w"


section \<open>\<open>createSrcModel\<close>\<close>

text \<open>
  The objects of the modelling library as far as the notebook touches them: a parameter has a
  value, a flag \<open>free\<close> and a prior; \<open>Powerlaw()\<close> has the parameters \<open>K\<close>, \<open>piv\<close>, \<open>index\<close>,
  \<open>EBLattenuation()\<close> has \<open>redshift\<close> and \<open>attenuation\<close>; \<open>f*g\<close> is the composite \<open>Product f g\<close>.
  What the two constructors return before the notebook changes it is a parameter (\<open>lib\<close>).
  Setting \<open>p.fix = False\<close> is setting \<open>p.free = True\<close>.
\<close>

datatype prior = Uniform_prior real real | Log_uniform_prior real real

record parameter =
  par_value :: real
  par_free :: bool
  par_prior :: "prior option"

record powerlaw =
  pl_K :: parameter
  pl_piv :: parameter
  pl_index :: parameter

record eblattenuation =
  ebl_redshift :: parameter
  ebl_attenuation :: parameter

datatype spectral =
    Powerlaw powerlaw
  | EBLattenuation eblattenuation
  | Product spectral spectral

record lib =
  new_Powerlaw :: powerlaw
  new_EBLattenuation :: eblattenuation

record point_source =
  ps_name :: string
  ps_ra :: real
  ps_dec :: real
  spectral_shape :: spectral

text \<open>\<open>source.redshift_2 = z\<close>: in a composite the parameters of the second factor carry the
  suffix \<open>_2\<close> (the notebook links \<open>attenuation_2\<close> by the same convention), so this sets the
  redshift of the second factor, which has to be one that has a redshift.\<close>

fun set_redshift_2 :: "real \<Rightarrow> spectral \<Rightarrow> error + spectral" where
  "set_redshift_2 z (Product f (EBLattenuation e)) =
     Inr (Product f (EBLattenuation (e\<lparr>ebl_redshift := (ebl_redshift e)\<lparr>par_value := z\<rparr>\<rparr>)))"
| "set_redshift_2 z _ = Inl AttributeError"

definition createSrcModel ::
  "lib \<Rightarrow> string \<Rightarrow> real \<Rightarrow> real \<Rightarrow> real \<Rightarrow> real \<Rightarrow> error + point_source" where
  "createSrcModel L src_name ra dec redshift index =
     (let powerlaw = new_Powerlaw L;
          powerlaw = powerlaw\<lparr>pl_index := (pl_index powerlaw)\<lparr>par_prior := Some (Uniform_prior (- 5) 5)\<rparr>\<rparr>;
          powerlaw = powerlaw\<lparr>pl_K := (pl_K powerlaw)\<lparr>par_prior := Some (Log_uniform_prior (1 / 10 ^ 20) (1 / 10 ^ 10))\<rparr>\<rparr>;
          powerlaw = powerlaw\<lparr>pl_piv := (pl_piv powerlaw)\<lparr>par_value := 500000\<rparr>\<rparr>;
          powerlaw = powerlaw\<lparr>pl_index := (pl_index powerlaw)\<lparr>par_value := index\<rparr>\<rparr>;
          powerlaw = powerlaw\<lparr>pl_index := (pl_index powerlaw)\<lparr>par_free := False\<rparr>\<rparr>;
          ebl = new_EBLattenuation L;
          ebl = ebl\<lparr>ebl_attenuation := (ebl_attenuation ebl)\<lparr>par_prior := Some (Uniform_prior 0 2)\<rparr>\<rparr>;
          ebl = ebl\<lparr>ebl_attenuation := (ebl_attenuation ebl)\<lparr>par_free := True\<rparr>\<rparr>;
          source = Product (Powerlaw powerlaw) (EBLattenuation ebl)
      in case set_redshift_2 redshift source of
           Inl e \<Rightarrow> Inl e
         | Inr source \<Rightarrow>
             Inr \<lparr>ps_name = src_name, ps_ra = ra, ps_dec = dec, spectral_shape = source\<rparr>)"

text \<open>
  \<open>createSrcModel\<close> once more, with its library calls in sight: every call the function
  makes is written down when it is made and may raise (\<open>raises\<close> says which call raises what;
  a call that returns does what it does in \<open>createSrcModel\<close> above). The function is a
  sequence of statements with no \<open>try\<close>, so an exception ends it where it is raised.
\<close>

datatype lib_op =
    Construct string
  | Make_prior prior
  | Set_prior string prior
  | Set_value string real
  | Set_free string bool
  | Set_fix string bool
  | Multiply
  | Make_quantity real
  | Construct_PointSource string real real

definition lib_call ::
  "(lib_op \<Rightarrow> error option) \<Rightarrow> lib_op \<Rightarrow> 'a \<Rightarrow> lib_op list \<Rightarrow> lib_op list \<times> (error + 'a)" where
  "lib_call raises op v made =
     (made @ [op], case raises op of Some e \<Rightarrow> Inl e | None \<Rightarrow> Inr v)"

definition and_then ::
  "lib_op list \<times> (error + 'a) \<Rightarrow> ('a \<Rightarrow> lib_op list \<Rightarrow> lib_op list \<times> (error + 'b)) \<Rightarrow>
   lib_op list \<times> (error + 'b)" where
  "and_then r f = (case r of (made, Inl e) \<Rightarrow> (made, Inl e) | (made, Inr v) \<Rightarrow> f v made)"

definition createSrcModel_calls ::
  "(lib_op \<Rightarrow> error option) \<Rightarrow> lib \<Rightarrow> string \<Rightarrow> real \<Rightarrow> real \<Rightarrow> real \<Rightarrow> real \<Rightarrow>
   lib_op list \<times> (error + point_source)" where
  "createSrcModel_calls raises L src_name ra dec redshift index =
     and_then (lib_call raises (Construct ''Powerlaw'') (new_Powerlaw L) []) (\<lambda>powerlaw made.
     and_then (lib_call raises (Make_prior (Uniform_prior (- 5) 5)) (Uniform_prior (- 5) 5) made) (\<lambda>p made.
     and_then (lib_call raises (Set_prior ''powerlaw.index'' p)
                 (powerlaw\<lparr>pl_index := (pl_index powerlaw)\<lparr>par_prior := Some p\<rparr>\<rparr>) made) (\<lambda>powerlaw made.
     and_then (lib_call raises (Make_prior (Log_uniform_prior (1 / 10 ^ 20) (1 / 10 ^ 10)))
                 (Log_uniform_prior (1 / 10 ^ 20) (1 / 10 ^ 10)) made) (\<lambda>p made.
     and_then (lib_call raises (Set_prior ''powerlaw.K'' p)
                 (powerlaw\<lparr>pl_K := (pl_K powerlaw)\<lparr>par_prior := Some p\<rparr>\<rparr>) made) (\<lambda>powerlaw made.
     and_then (lib_call raises (Set_value ''powerlaw.piv'' 500000)
                 (powerlaw\<lparr>pl_piv := (pl_piv powerlaw)\<lparr>par_value := 500000\<rparr>\<rparr>) made) (\<lambda>powerlaw made.
     and_then (lib_call raises (Set_value ''powerlaw.index'' index)
                 (powerlaw\<lparr>pl_index := (pl_index powerlaw)\<lparr>par_value := index\<rparr>\<rparr>) made) (\<lambda>powerlaw made.
     and_then (lib_call raises (Set_free ''powerlaw.index'' False)
                 (powerlaw\<lparr>pl_index := (pl_index powerlaw)\<lparr>par_free := False\<rparr>\<rparr>) made) (\<lambda>powerlaw made.
     and_then (lib_call raises (Construct ''EBLattenuation'') (new_EBLattenuation L) made) (\<lambda>ebl made.
     and_then (lib_call raises (Make_prior (Uniform_prior 0 2)) (Uniform_prior 0 2) made) (\<lambda>p made.
     and_then (lib_call raises (Set_prior ''ebl.attenuation'' p)
                 (ebl\<lparr>ebl_attenuation := (ebl_attenuation ebl)\<lparr>par_prior := Some p\<rparr>\<rparr>) made) (\<lambda>ebl made.
     and_then (lib_call raises (Set_fix ''ebl.attenuation'' False)
                 (ebl\<lparr>ebl_attenuation := (ebl_attenuation ebl)\<lparr>par_free := True\<rparr>\<rparr>) made) (\<lambda>ebl made.
     and_then (lib_call raises Multiply (Product (Powerlaw powerlaw) (EBLattenuation ebl)) made) (\<lambda>source made.
     and_then (lib_call raises (Make_quantity redshift) redshift made) (\<lambda>z made.
     and_then (case set_redshift_2 z source of
                 Inl e \<Rightarrow> (made @ [Set_value ''source.redshift_2'' z], Inl e)
               | Inr source \<Rightarrow> lib_call raises (Set_value ''source.redshift_2'' z) source made) (\<lambda>source made.
     lib_call raises (Construct_PointSource src_name ra dec)
       \<lparr>ps_name = src_name, ps_ra = ra, ps_dec = dec, spectral_shape = source\<rparr> made)))))))))))))))"

text \<open>The library calls of \<open>createSrcModel\<close> in the order of its statements, and, for a list
  of calls, the calls made up to the first that raises, with what it raises.\<close>

definition createSrcModel_ops :: "string \<Rightarrow> real \<Rightarrow> real \<Rightarrow> real \<Rightarrow> real \<Rightarrow> lib_op list" where
  "createSrcModel_ops src_name ra dec redshift index =
     [Construct ''Powerlaw'',
      Make_prior (Uniform_prior (- 5) 5),
      Set_prior ''powerlaw.index'' (Uniform_prior (- 5) 5),
      Make_prior (Log_uniform_prior (1 / 10 ^ 20) (1 / 10 ^ 10)),
      Set_prior ''powerlaw.K'' (Log_uniform_prior (1 / 10 ^ 20) (1 / 10 ^ 10)),
      Set_value ''powerlaw.piv'' 500000,
      Set_value ''powerlaw.index'' index,
      Set_free ''powerlaw.index'' False,
      Construct ''EBLattenuation'',
      Make_prior (Uniform_prior 0 2),
      Set_prior ''ebl.attenuation'' (Uniform_prior 0 2),
      Set_fix ''ebl.attenuation'' False,
      Multiply,
      Make_quantity redshift,
      Set_value ''source.redshift_2'' redshift,
      Construct_PointSource src_name ra dec]"

fun first_raise :: "(lib_op \<Rightarrow> error option) \<Rightarrow> lib_op list \<Rightarrow> (lib_op list \<times> error) option" where
  "first_raise raises [] = None"
| "first_raise raises (op # ops) =
     (case raises op of
        Some e \<Rightarrow> Some ([op], e)
      | None \<Rightarrow>
          (case first_raise raises ops of
             None \<Rightarrow> None
           | Some (made, e) \<Rightarrow> Some (op # made, e)))"

section \<open>The cells of the notebook\<close>

text \<open>\<open>FermiLATLike(name, eventFile, ft2File, ltcube, 'unbinned', expomap, source_name=...)\<close>
  keeps the files it is given.\<close>

record plugin =
  plugin_name :: string
  event_file :: string
  ft2_file :: string
  livetime_cube :: string
  kind :: string
  exposure_map :: string
  source_name :: string
  plugin_model_set :: bool

text \<open>\<open>glob.glob(pattern)[0]\<close>: indexing an empty list raises \<open>IndexError\<close>.\<close>

definition glob_first :: "'fs env \<Rightarrow> string \<Rightarrow> 'fs world \<Rightarrow> error + string \<times> 'fs world" where
  "glob_first E pattern w =
     (case glob_glob E (files w) (cwd w) pattern of
        [] \<Rightarrow> Inl IndexError
      | m # _ \<Rightarrow> Inr (m, w\<lparr>trace := trace w @ [Glob pattern]\<rparr>))"

definition interval_directory :: "(real \<Rightarrow> string) \<Rightarrow> real \<Rightarrow> real \<Rightarrow> string" where
  "interval_directory fs tstart tstop = ''.'' @ ''/interval'' @ fs tstart @ ''-'' @ fs tstop @ ''/''"

text \<open>The three lookups \<open>eventFile\<close>, \<open>expomap\<close>, \<open>ltcube\<close>, in the order of the cell.\<close>

definition discover_files ::
  "'fs env \<Rightarrow> string \<Rightarrow> 'fs world \<Rightarrow> error + (string \<times> string \<times> string) \<times> 'fs world" where
  "discover_files E directory w =
     (case glob_first E (directory @ ''/*_filt.fit'') w of
        Inl e \<Rightarrow> Inl e
      | Inr (eventFile, w1) \<Rightarrow>
     (case glob_first E (directory @ ''/*_filt_expomap.fit'') w1 of
        Inl e \<Rightarrow> Inl e
      | Inr (expomap, w2) \<Rightarrow>
     (case glob_first E (directory @ ''/*_filt_ltcube.fit'') w2 of
        Inl e \<Rightarrow> Inl e
      | Inr (ltcube, w3) \<Rightarrow> Inr ((eventFile, expomap, ltcube), w3))))"

definition ft2_path :: "'fs env \<Rightarrow> string \<Rightarrow> string" where
  "ft2_path E trigger_id =
     expandvars E ''${HOME}/FermiData'' @ ''/'' @ trigger_id @ ''/gll_ft2_tr_'' @ trigger_id @ ''_v00.fit''"

text \<open>The second and the fourth code cell are the same statements on different data.\<close>

definition source_cell ::
  "'fs env \<Rightarrow> lib \<Rightarrow> string \<Rightarrow> real \<Rightarrow> real \<Rightarrow> real \<Rightarrow> real \<Rightarrow> real \<Rightarrow> real \<Rightarrow> 'fs world \<Rightarrow>
   error + point_source \<times> plugin \<times> 'fs world" where
  "source_cell E L trigger_id ra dec redshift index tstart tstop w =
     (case createSrcModel L trigger_id ra dec redshift index of
        Inl e \<Rightarrow> Inl e
      | Inr source \<Rightarrow>
     (case doLAT_default E (PyStr trigger_id) (PyFloat ra) (PyFloat dec) [PyFloat tstart]
             [PyFloat tstop] (record_call ''createSrcModel'' [trigger_id] w) of
        Inl e \<Rightarrow> Inl e
      | Inr (_, w1) \<Rightarrow>
     (let ft2File = ft2_path E trigger_id;
          directory = interval_directory (float_str E) tstart tstop
      in case discover_files E directory w1 of
           Inl e \<Rightarrow> Inl e
         | Inr ((eventFile, expomap, ltcube), w2) \<Rightarrow>
             Inr (source,
                  \<lparr>plugin_name = trigger_id, event_file = eventFile, ft2_file = ft2File,
                   livetime_cube = ltcube, kind = ''unbinned'', exposure_map = expomap,
                   source_name = trigger_id, plugin_model_set = False\<rparr>,
                  record_call ''FermiLATLike''
                    [trigger_id, eventFile, ft2File, ltcube, ''unbinned'', expomap, trigger_id] w2))))"

text \<open>\<open>Model(source_1, source_2)\<close> and \<open>model.link(p1, p2)\<close>. A parameter of the model is named
  by its source and its name in the composite; the path
  \<open>model.<source>.spectrum.main.composite.attenuation_2\<close> exists when the model has a source of
  that name whose shape is a composite with an attenuation in its second factor.\<close>

type_synonym param_path = "string \<times> string"

record model =
  sources :: "point_source list"
  links :: "(param_path \<times> param_path) list"

fun has_attenuation_2 :: "spectral \<Rightarrow> bool" where
  "has_attenuation_2 (Product f (EBLattenuation e)) = True"
| "has_attenuation_2 _ = False"

definition attenuation_2_of :: "model \<Rightarrow> string \<Rightarrow> error + param_path" where
  "attenuation_2_of m src =
     (case find (\<lambda>s. ps_name s = src) (sources m) of
        None \<Rightarrow> Inl AttributeError
      | Some s \<Rightarrow>
          if has_attenuation_2 (spectral_shape s) then Inr (src, ''attenuation_2'')
          else Inl AttributeError)"

definition link :: "param_path \<Rightarrow> param_path \<Rightarrow> model \<Rightarrow> model" where
  "link p1 p2 m = m\<lparr>links := links m @ [(p1, p2)]\<rparr>"

text \<open>The two arguments of the one \<open>model.link\<close> call of the notebook.\<close>

definition link_arguments :: "model \<Rightarrow> error + param_path \<times> param_path" where
  "link_arguments m =
     (case attenuation_2_of m ''bn080916009'' of
        Inl e \<Rightarrow> Inl e
      | Inr p1 \<Rightarrow>
     (case attenuation_2_of m ''bn090102122'' of
        Inl e \<Rightarrow> Inl e
      | Inr p2 \<Rightarrow> Inr (p1, p2)))"

definition param_string :: "param_path \<Rightarrow> string" where
  "param_string p = fst p @ ''.spectrum.main.composite.'' @ snd p"

text \<open>Modelled from the spec: \<open>Model.link\<close> belongs to the modelling library and is not under
  \<open>src/\<close>. The spec says that linking lets the two sources "share a fitted value": the linked
  parameter (the first argument) takes the value the fit gives to the second.\<close>

definition fitted_value :: "model \<Rightarrow> (param_path \<Rightarrow> real) \<Rightarrow> param_path \<Rightarrow> real" where
  "fitted_value m fit p = (case map_of (links m) p of Some q \<Rightarrow> fit q | None \<Rightarrow> fit p)"

record analysis =
  analysis_model :: model
  datalist :: "plugin list"
  sampler :: string

definition set_priors :: "string list \<Rightarrow> 'fs world \<Rightarrow> 'fs world" where
  "set_priors names w =
     foldl (\<lambda>w name.
        record_call ''set_uninformative_prior'' [name @ ''_IsotropicTemplate_Normalization'']
          (record_call ''set_uninformative_prior'' [name @ ''_GalacticTemplate_Value''] w))
       w names"

definition link_and_sample_cell ::
  "point_source \<Rightarrow> point_source \<Rightarrow> plugin \<Rightarrow> plugin \<Rightarrow> 'fs world \<Rightarrow> error + analysis \<times> 'fs world" where
  "link_and_sample_cell source_1 source_2 lat_plugin_1 lat_plugin_2 w =
     (let model = \<lparr>sources = [source_1, source_2], links = []\<rparr>;
          w = record_call ''Model'' [ps_name source_1, ps_name source_2] w
      in case link_arguments model of
           Inl e \<Rightarrow> Inl e
         | Inr (p1, p2) \<Rightarrow>
     (let model = link p1 p2 model;
          w = record_call ''link'' [param_string p1, param_string p2] w;
          lat_plugin_1 = lat_plugin_1\<lparr>plugin_model_set := True\<rparr>;
          w = record_call ''set_model'' [plugin_name lat_plugin_1] w;
          lat_plugin_2 = lat_plugin_2\<lparr>plugin_model_set := True\<rparr>;
          w = record_call ''set_model'' [plugin_name lat_plugin_2] w;
          w = record_call ''DataList'' [plugin_name lat_plugin_1, plugin_name lat_plugin_2] w;
          w = record_call ''BayesianAnalysis'' [] w;
          w = set_priors [''bn080916009'', ''bn090102122''] w;
          w = record_call ''set_sampler'' [''ultranest''] w;
          w = record_call ''setup'' [] w;
          w = record_call ''sample'' [] w
      in Inr (\<lparr>analysis_model = model, datalist = [lat_plugin_1, lat_plugin_2],
               sampler = ''ultranest''\<rparr>, w)))"

definition display_cell :: "'fs world \<Rightarrow> 'fs world" where
  "display_cell w = record_call ''display'' [] w"

definition plot_cell :: "'fs world \<Rightarrow> 'fs world" where
  "plot_cell w = record_call ''show'' [] (record_call ''plot_spectra'' [] w)"

definition notebook :: "'fs env \<Rightarrow> lib \<Rightarrow> 'fs world \<Rightarrow> error + analysis \<times> 'fs world" where
  "notebook E L w =
     (case source_cell E L ''bn080916009'' 119.889999 (- 56.700001) 4.350 (- 2.072603)
             3.03 1531.780029 w of
        Inl e \<Rightarrow> Inl e
      | Inr (source_1, lat_plugin_1, w1) \<Rightarrow>
     (case source_cell E L ''bn090102122'' 127.559998 33.459999 1.547 (- 0.062906)
             3915.889893 4404.799805 w1 of
        Inl e \<Rightarrow> Inl e
      | Inr (source_2, lat_plugin_2, w2) \<Rightarrow>
     (case link_and_sample_cell source_1 source_2 lat_plugin_1 lat_plugin_2 w2 of
        Inl e \<Rightarrow> Inl e
      | Inr (bayes, w3) \<Rightarrow> Inr (bayes, plot_cell (display_cell w3)))))"


section \<open>The steps the specification names\<close>

text \<open>
  The specification numbers the steps of the notebook: (1) invoke the external data-reduction
  command, (2) discover the produced files by glob pattern, (3) build source and model objects,
  (4) instantiate the likelihood plugins, (5) link parameters, (6) run the sampler,
  (7) display and plot. \<open>spec_step\<close> gives the step an event of the trace belongs to;
  creating the directory, changing into it, printing, setting the model of a plugin, the data
  list and the priors are none of the seven.
\<close>

fun starts_with :: "string \<Rightarrow> string \<Rightarrow> bool" where
  "starts_with [] s = True"
| "starts_with (p # ps) [] = False"
| "starts_with (p # ps) (c # cs) = (p = c \<and> starts_with ps cs)"

fun spec_step :: "event \<Rightarrow> nat option" where
  "spec_step (System command) = (if starts_with exe_path command then Some 1 else None)"
| "spec_step (Chdir d) = None"
| "spec_step (Print s) = None"
| "spec_step (Glob pattern) = Some 2"
| "spec_step (Call f xs) =
     (if f = ''createSrcModel'' \<or> f = ''Model'' then Some 3
      else if f = ''FermiLATLike'' then Some 4
      else if f = ''link'' then Some 5
      else if f = ''BayesianAnalysis'' \<or> f = ''set_sampler'' \<or> f = ''setup'' \<or> f = ''sample'' then Some 6
      else if f = ''display'' \<or> f = ''plot_spectra'' \<or> f = ''show'' then Some 7
      else None)"

definition steps_of :: "event list \<Rightarrow> nat list" where
  "steps_of evs = concat (map (\<lambda>e. case spec_step e of None \<Rightarrow> [] | Some k \<Rightarrow> [k]) evs)"

text \<open>The named arguments as the specification lists them.\<close>

definition spec_named_arguments :: "string list" where
  "spec_named_arguments =
     [''outfile'', ''ra'', ''dec'', ''roi'', ''tstarts'', ''tstops'', ''zmax'', ''emin'', ''emax'',
      ''irf'', ''galactic_model'', ''particle_model'', ''tsmin'', ''strategy'', ''thetamask'',
      ''spectralfiles'', ''liketype'', ''optimizeposition'', ''datarepository'', ''flemin'',
      ''flemax'', ''fgl_mode'']"

text \<open>The named arguments as \<open>doLAT\<close> assigns them.\<close>

definition doLAT_named_arguments :: "string list" where
  "doLAT_named_arguments =
     [''outfile'', ''ra'', ''dec'', ''roi'', ''tstarts'', ''tstops'', ''zmax'', ''emin'', ''emax'',
      ''irf'', ''galactic_model'', ''particle_model'', ''tsmin'', ''strategy'', ''thetamax'',
      ''spectralfiles'', ''liketype'', ''optimizeposition'', ''datarepository'', ''flemin'',
      ''flemax'', ''fgl_mode'']"

section \<open>A concrete environment\<close>

text \<open>
  An environment to run the model in. The ten floats of the notebook print as its stored
  output shows them (the examples format no other float); the dictionary yields its entries
  in the order of that output; the file system is the
  list of the directories made so far, \<open>mkdir -p d\<close> adds \<open>d\<close> under the working directory
  and every other command leaves the directories alone and exits with \<open>status\<close>; \<open>glob.glob\<close>
  is the function \<open>g\<close> of the pattern.
\<close>

definition stored_float_str :: "real \<Rightarrow> string" where
  "stored_float_str x =
     (case map_of
        [(119.889999, ''119.889999''), (- 56.700001, ''-56.700001''),
         (3.03, ''3.03''), (1531.780029, ''1531.780029''),
         (127.559998, ''127.559998''), (33.459999, ''33.459999''),
         (3915.889893, ''3915.889893''), (4404.799805, ''4404.799805''),
         (5, ''5.0''), (100, ''100.0'')] x of
        Some s \<Rightarrow> s
      | None \<Rightarrow> ''nan'')"

definition stored_order :: "string list" where
  "stored_order =
     [''tstops'', ''zmax'', ''roi'', ''emax'', ''flemax'', ''thetamax'', ''particle_model'',
      ''datarepository'', ''galactic_model'', ''strategy'', ''tsmin'', ''optimizeposition'',
      ''ra'', ''fgl_mode'', ''irf'', ''spectralfiles'', ''outfile'', ''liketype'', ''flemin'',
      ''tstarts'', ''emin'', ''dec'']"

definition stored_items :: "pydict \<Rightarrow> pydict" where
  "stored_items d =
     concat (map (\<lambda>k. filter (\<lambda>kv. fst kv = k) d) stored_order)
       @ filter (\<lambda>kv. fst kv \<notin> set stored_order) d"

definition example_shell :: "int \<Rightarrow> string \<Rightarrow> string \<Rightarrow> string list \<Rightarrow> int \<times> string list" where
  "example_shell status command dir fs =
     (if starts_with ''mkdir -p '' command then (0, fs @ [dir @ ''/'' @ drop 9 command])
      else (status, fs))"

definition example_resolve :: "string list \<Rightarrow> string \<Rightarrow> string \<Rightarrow> string option" where
  "example_resolve fs dir path =
     (if dir @ ''/'' @ path \<in> set fs then Some (dir @ ''/'' @ path) else None)"

definition example_env :: "int \<Rightarrow> (string \<Rightarrow> string list) \<Rightarrow> string list env" where
  "example_env status g =
     \<lparr>float_str = stored_float_str, dict_items = stored_items, shell = example_shell status,
      resolve_dir = example_resolve, glob_glob = (\<lambda>fs dir pattern. g pattern),
      expandvars = (\<lambda>s. ''/home/user'' @ drop 7 s)\<rparr>"

text \<open>Three file systems for \<open>glob.glob\<close>: one match for every pattern (the star replaced by
  a stem), two matches for every pattern, and no exposure map.\<close>

definition fill_star :: "string \<Rightarrow> string \<Rightarrow> string" where
  "fill_star stem pattern =
     takeWhile (\<lambda>c. c \<noteq> CHR ''*'') pattern @ stem @ drop 1 (dropWhile (\<lambda>c. c \<noteq> CHR ''*'') pattern)"

definition one_match :: "string \<Rightarrow> string list" where
  "one_match pattern = [fill_star ''gll_ft1_tr'' pattern]"

definition two_matches :: "string \<Rightarrow> string list" where
  "two_matches pattern = [fill_star ''a'' pattern, fill_star ''b'' pattern]"

definition no_expomap :: "string \<Rightarrow> string list" where
  "no_expomap pattern =
     (if drop (length pattern - 17) pattern = ''_filt_expomap.fit'' then []
      else [fill_star ''gll_ft1_tr'' pattern])"

definition example_lib :: lib where
  "example_lib =
     \<lparr>new_Powerlaw =
        \<lparr>pl_K = \<lparr>par_value = 1, par_free = True, par_prior = None\<rparr>,
         pl_piv = \<lparr>par_value = 1, par_free = False, par_prior = None\<rparr>,
         pl_index = \<lparr>par_value = - 2, par_free = True, par_prior = None\<rparr>\<rparr>,
      new_EBLattenuation =
        \<lparr>ebl_redshift = \<lparr>par_value = 1, par_free = False, par_prior = None\<rparr>,
         ebl_attenuation = \<lparr>par_value = 1, par_free = False, par_prior = None\<rparr>\<rparr>\<rparr>"

definition start_world :: "string list world" where
  "start_world = \<lparr>cwd = ''/home/user/work'', files = [], trace = []\<rparr>"

text \<open>The example environment with a shell in which no command makes anything, \<open>mkdir -p\<close>
  included (a directory that cannot be written to), and a library in which the constructor
  \<open>EBLattenuation()\<close> raises.\<close>

definition idle_shell :: "int \<Rightarrow> string \<Rightarrow> string \<Rightarrow> string list \<Rightarrow> int \<times> string list" where
  "idle_shell status command dir fs = (status, fs)"

definition idle_env :: "string list env" where
  "idle_env = (example_env 0 one_match)\<lparr>shell := idle_shell 1\<rparr>"

fun no_EBLattenuation :: "lib_op \<Rightarrow> error option" where
  "no_EBLattenuation (Construct c) = (if c = ''EBLattenuation'' then Some AttributeError else None)"
| "no_EBLattenuation _ = None"

fun all_return :: "lib_op \<Rightarrow> error option" where
  "all_return _ = None"


text \<open>The first call of the notebook, \<open>doLAT(trigger_id, ra, dec, [tstart], [tstop])\<close> for
  \<open>bn080916009\<close>: its dictionary, and the command line its cell printed, as the notebook
  stores it.\<close>

definition first_args :: pydict where
  "first_args =
     doLAT_args stored_float_str (PyStr ''bn080916009'') (PyFloat 119.889999)
       (PyFloat (- 56.700001)) [PyFloat 3.03] [PyFloat 1531.780029] (PyFloat 5) (PyInt 105)
       (PyInt 65) (PyInt 100000) (PyStr ''p8_transient010e'') (PyStr ''./'')"

definition stored_command_1 :: string where
  "stored_command_1 =
     ''$CONDA_PREFIX/lib/python2.7/site-packages/fermitools/GtBurst/scripts/doTimeResolvedLike.py --tstops '1531.780029' --zmax 105 --roi 5.0 --emax 100000 --flemax 10000 --thetamax 180 --particle_model 'isotr template' --datarepository ./ --galactic_model 'template (fixed norm.)' --strategy time --tsmin 25 --optimizeposition no --ra 119.889999 --fgl_mode fast --irf p8_transient010e --spectralfiles yes --outfile bn080916009 --liketype unbinned --flemin 100.0 --tstarts '3.03' --emin 65 --dec -56.700001 bn080916009''"

fun occurs_in :: "string \<Rightarrow> string \<Rightarrow> bool" where
  "occurs_in p [] = (p = [])"
| "occurs_in p (c # cs) = (starts_with p (c # cs) \<or> occurs_in p cs)"

text \<open>The files a plugin is built from, and the files the three patterns match in a
  directory: the two sides of the specification's sentence on the files consumed.\<close>

definition consumed_files :: "plugin \<Rightarrow> string list" where
  "consumed_files p = [event_file p, ft2_file p, livetime_cube p, exposure_map p]"

definition matched_files :: "'fs env \<Rightarrow> string \<Rightarrow> 'fs world \<Rightarrow> string list" where
  "matched_files E directory w =
     glob_glob E (files w) (cwd w) (directory @ ''/*_filt.fit'')
     @ glob_glob E (files w) (cwd w) (directory @ ''/*_filt_expomap.fit'')
     @ glob_glob E (files w) (cwd w) (directory @ ''/*_filt_ltcube.fit'')"

fun is_chdir :: "event \<Rightarrow> bool" where
  "is_chdir (Chdir d) = True"
| "is_chdir _ = False"

section \<open>The interval strings\<close>

lemma interval_loop_concat:
  "interval_loop fs ps (a, b) =
     (a @ concat (map (\<lambda>p. py_str fs (fst p) @ '', '') ps),
      b @ concat (map (\<lambda>p. py_str fs (snd p) @ '', '') ps))"
  by (induction ps arbitrary: a b) auto

lemma concat_sep_join:
  "xs \<noteq> [] \<Longrightarrow> concat (map (\<lambda>x. x @ sep) xs) = py_join sep xs @ sep"
  by (induction sep xs rule: py_join.induct) auto

lemma drop_last2_sep: "drop_last2 (s @ '', '') = s"
  by (simp add: drop_last2_def)

lemma drop_last2_concat:
  "drop_last2 (concat (map (\<lambda>x. f x @ '', '') xs)) = py_join '', '' (map f xs)"
proof (cases xs)
  case Nil
  then show ?thesis by (simp add: drop_last2_def)
next
  case (Cons y ys)
  then have "map f xs \<noteq> []" by simp
  from concat_sep_join [OF this, of "'', ''"]
  have "concat (map (\<lambda>x. f x @ '', '') xs) = py_join '', '' (map f xs) @ '', ''"
    by (simp add: comp_def)
  then show ?thesis by (simp only: drop_last2_sep)
qed

lemma interval_strings_join:
  "interval_strings fs TSTARTS TSTOPS =
     (py_join '', '' (map (py_str fs) (take (min (length TSTARTS) (length TSTOPS)) TSTARTS)),
      py_join '', '' (map (py_str fs) (take (min (length TSTARTS) (length TSTOPS)) TSTOPS)))"
proof -
  let ?ps = "zip TSTARTS TSTOPS"
  have a: "concat (map (\<lambda>p. py_str fs (fst p) @ '', '') ?ps)
           = concat (map (\<lambda>x. py_str fs x @ '', '') (map fst ?ps))"
    by (simp add: comp_def)
  have b: "concat (map (\<lambda>p. py_str fs (snd p) @ '', '') ?ps)
           = concat (map (\<lambda>x. py_str fs x @ '', '') (map snd ?ps))"
    by (simp add: comp_def)
  have f: "map fst ?ps = take (min (length TSTARTS) (length TSTOPS)) TSTARTS"
    by (simp add: map_fst_zip_take)
  have s: "map snd ?ps = take (min (length TSTARTS) (length TSTOPS)) TSTOPS"
    by (simp add: map_snd_zip_take)
  show ?thesis
    unfolding interval_strings_def interval_loop_concat a b f s
    by (simp add: drop_last2_concat)
qed

text \<open>Every key is assigned once, so the dictionary is the list of the assignments.\<close>

lemma doLAT_args_eq:
  "doLAT_args fs OUTFILE RA DEC TSTARTS TSTOPS ROI ZMAX EMIN EMAX IRF data_path =
     [(''outfile'', OUTFILE),
      (''ra'', RA),
      (''dec'', DEC),
      (''roi'', ROI),
      (''tstarts'', PyStr (quoted (fst (interval_strings fs TSTARTS TSTOPS)))),
      (''tstops'', PyStr (quoted (snd (interval_strings fs TSTARTS TSTOPS)))),
      (''zmax'', ZMAX),
      (''emin'', EMIN),
      (''emax'', EMAX),
      (''irf'', IRF),
      (''galactic_model'', PyStr (quoted ''template (fixed norm.)'')),
      (''particle_model'', PyStr (quoted ''isotr template'')),
      (''tsmin'', PyInt 25),
      (''strategy'', PyStr ''time''),
      (''thetamax'', PyInt 180),
      (''spectralfiles'', PyStr ''yes''),
      (''liketype'', PyStr ''unbinned''),
      (''optimizeposition'', PyStr ''no''),
      (''datarepository'', data_path),
      (''flemin'', PyFloat 100),
      (''flemax'', PyInt 10000),
      (''fgl_mode'', PyStr ''fast'')]"
  by (simp add: doLAT_args_def assign_all_def split_beta)

text \<open>
  C9. When \<open>TSTARTS\<close> and \<open>TSTOPS\<close> differ in length, \<open>zip\<close> stops at the shorter one: with
  \<open>n = min(len(TSTARTS), len(TSTOPS))\<close> the values under \<open>tstarts\<close> and \<open>tstops\<close> are the
  quoted \<open>', '.join\<close> of the first \<open>n\<close> formatted values of each list, so exactly \<open>n\<close> values
  with no trailing separator. The dictionary is a total function of the arguments: unequal
  lengths are no error.
\<close>

theorem doLAT_intervals_truncated:
  "map_of (doLAT_args fs OUTFILE RA DEC TSTARTS TSTOPS ROI ZMAX EMIN EMAX IRF data_path) ''tstarts''
     = Some (PyStr (quoted (py_join '', ''
         (map (py_str fs) (take (min (length TSTARTS) (length TSTOPS)) TSTARTS)))))
   \<and> map_of (doLAT_args fs OUTFILE RA DEC TSTARTS TSTOPS ROI ZMAX EMIN EMAX IRF data_path) ''tstops''
     = Some (PyStr (quoted (py_join '', ''
         (map (py_str fs) (take (min (length TSTARTS) (length TSTOPS)) TSTOPS)))))
   \<and> length (take (min (length TSTARTS) (length TSTOPS)) TSTARTS)
     = min (length TSTARTS) (length TSTOPS)
   \<and> length (take (min (length TSTARTS) (length TSTOPS)) TSTOPS)
     = min (length TSTARTS) (length TSTOPS)"
  by (simp add: doLAT_args_eq interval_strings_join)

section \<open>The command line\<close>

lemma foldl_add_option:
  "foldl (add_option fs) exe kis =
     exe @ concat (map (\<lambda>ki. '' --'' @ fst ki @ '' '' @ py_str fs (snd ki)) kis)"
  by (induction kis arbitrary: exe) (simp_all add: add_option_def split_beta)

lemma doLAT_command_eq:
  "doLAT_command fs items OUTFILE RA DEC TSTARTS TSTOPS ROI ZMAX EMIN EMAX IRF data_path =
     exe_path
     @ concat (map (\<lambda>ki. '' --'' @ fst ki @ '' '' @ py_str fs (snd ki))
         (items (doLAT_args fs OUTFILE RA DEC TSTARTS TSTOPS ROI ZMAX EMIN EMAX IRF data_path)))
     @ '' '' @ py_str fs OUTFILE"
  by (simp add: doLAT_command_def Let_def foldl_add_option)

lemma doLAT_args_keys:
  "map fst (doLAT_args fs OUTFILE RA DEC TSTARTS TSTOPS ROI ZMAX EMIN EMAX IRF data_path)
     = doLAT_named_arguments"
  by (simp add: doLAT_args_eq doLAT_named_arguments_def)

lemma stored_command_first:
  "doLAT_command stored_float_str stored_items (PyStr ''bn080916009'') (PyFloat 119.889999)
       (PyFloat (- 56.700001)) [PyFloat 3.03] [PyFloat 1531.780029] (PyFloat 5) (PyInt 105)
       (PyInt 65) (PyInt 100000) (PyStr ''p8_transient010e'') (PyStr ''./'') = stored_command_1"
  by (simp add: doLAT_command_eq doLAT_args_eq stored_items_def stored_order_def
      interval_strings_join stored_float_str_def quoted_def exe_path_def str_int_def
      str_nat.simps digit_char_def stored_command_1_def)

lemma mset_stored_items_first_args:
  "mset (stored_items first_args) = mset first_args"
  by (simp add: first_args_def doLAT_args_eq stored_items_def stored_order_def)

text \<open>
  C1, as amended. The command line of the external script is the path of the script, then
  \<open>' --<name> <value>'\<close> for every entry the dictionary yields, then a blank and \<open>OUTFILE\<close>.
  When the dictionary yields each of its entries once, in whatever order, the names are
  \<open>outfile, ra, dec, roi, tstarts, tstops, zmax, emin, emax, irf, galactic_model,
  particle_model, tsmin, strategy, thetamax, spectralfiles, liketype, optimizeposition,
  datarepository, flemin, flemax, fgl_mode\<close>, each once and no other: the fifteenth is
  \<open>thetamax\<close>, not \<open>thetamask\<close>.
\<close>

theorem doLAT_command_named_arguments:
  assumes "mset (items (doLAT_args fs OUTFILE RA DEC TSTARTS TSTOPS ROI ZMAX EMIN EMAX IRF data_path))
           = mset (doLAT_args fs OUTFILE RA DEC TSTARTS TSTOPS ROI ZMAX EMIN EMAX IRF data_path)"
  shows "doLAT_command fs items OUTFILE RA DEC TSTARTS TSTOPS ROI ZMAX EMIN EMAX IRF data_path =
           exe_path
           @ concat (map (\<lambda>ki. '' --'' @ fst ki @ '' '' @ py_str fs (snd ki))
               (items (doLAT_args fs OUTFILE RA DEC TSTARTS TSTOPS ROI ZMAX EMIN EMAX IRF data_path)))
           @ '' '' @ py_str fs OUTFILE
         \<and> mset (map fst (items (doLAT_args fs OUTFILE RA DEC TSTARTS TSTOPS ROI ZMAX EMIN EMAX IRF data_path)))
           = mset doLAT_named_arguments
         \<and> distinct doLAT_named_arguments"
proof -
  let ?args = "doLAT_args fs OUTFILE RA DEC TSTARTS TSTOPS ROI ZMAX EMIN EMAX IRF data_path"
  have "mset (map fst (items ?args)) = image_mset fst (mset (items ?args))" by simp
  also have "\<dots> = image_mset fst (mset ?args)" using assms by simp
  also have "\<dots> = mset (map fst ?args)" by simp
  finally have "mset (map fst (items ?args)) = mset doLAT_named_arguments"
    by (simp only: doLAT_args_keys)
  moreover have "distinct doLAT_named_arguments"
    by (simp add: doLAT_named_arguments_def)
  ultimately show ?thesis by (simp only: doLAT_command_eq simp_thms)
qed

text \<open>The witness is the first call of the notebook: with the floats printed and the
  dictionary ordered as in the stored output, the model gives the stored command line.\<close>

theorem doLAT_command_named_arguments_witness:
  "mset (stored_items first_args) = mset first_args
   \<and> doLAT_command stored_float_str stored_items (PyStr ''bn080916009'') (PyFloat 119.889999)
       (PyFloat (- 56.700001)) [PyFloat 3.03] [PyFloat 1531.780029] (PyFloat 5) (PyInt 105)
       (PyInt 65) (PyInt 100000) (PyStr ''p8_transient010e'') (PyStr ''./'') = stored_command_1
   \<and> mset (map fst (stored_items first_args)) = mset doLAT_named_arguments"
  using doLAT_command_named_arguments [where items = stored_items and fs = stored_float_str
      and OUTFILE = "PyStr ''bn080916009''" and RA = "PyFloat 119.889999"
      and DEC = "PyFloat (- 56.700001)" and TSTARTS = "[PyFloat 3.03]"
      and TSTOPS = "[PyFloat 1531.780029]" and ROI = "PyFloat 5" and ZMAX = "PyInt 105"
      and EMIN = "PyInt 65" and EMAX = "PyInt 100000" and IRF = "PyStr ''p8_transient010e''"
      and data_path = "PyStr ''./''", folded first_args_def]
    mset_stored_items_first_args stored_command_first
  by (simp only: simp_thms)

text \<open>C1 as stated fails at that call: the claim lists \<open>thetamask\<close> and does not list
  \<open>thetamax\<close>, and the command line has no \<open>--thetamask\<close> and has \<open>--thetamax 180\<close>.\<close>

theorem doLAT_command_thetamask_counterexample:
  "''thetamask'' \<in> set spec_named_arguments
   \<and> \<not> occurs_in '' --thetamask ''
        (doLAT_command stored_float_str stored_items (PyStr ''bn080916009'') (PyFloat 119.889999)
          (PyFloat (- 56.700001)) [PyFloat 3.03] [PyFloat 1531.780029] (PyFloat 5) (PyInt 105)
          (PyInt 65) (PyInt 100000) (PyStr ''p8_transient010e'') (PyStr ''./''))
   \<and> ''thetamax'' \<notin> set spec_named_arguments
   \<and> occurs_in '' --thetamax 180 ''
        (doLAT_command stored_float_str stored_items (PyStr ''bn080916009'') (PyFloat 119.889999)
          (PyFloat (- 56.700001)) [PyFloat 3.03] [PyFloat 1531.780029] (PyFloat 5) (PyInt 105)
          (PyInt 65) (PyInt 100000) (PyStr ''p8_transient010e'') (PyStr ''./''))"
proof -
  have "\<not> occurs_in '' --thetamask '' stored_command_1"
    by (simp add: stored_command_1_def)
  moreover have "occurs_in '' --thetamax 180 '' stored_command_1"
    by (simp add: stored_command_1_def)
  moreover have "''thetamask'' \<in> set spec_named_arguments"
    by (simp add: spec_named_arguments_def)
  moreover have "''thetamax'' \<notin> set spec_named_arguments"
    by (simp add: spec_named_arguments_def)
  ultimately show ?thesis by (simp only: stored_command_first simp_thms)
qed

section \<open>What \<open>doLAT\<close> does to the world\<close>

lemma doLAT_unfold:
  "doLAT E OUTFILE RA DEC TSTARTS TSTOPS ROI ZMAX EMIN EMAX IRF data_path w =
     (case resolve_dir E
             (snd (shell E (''mkdir -p '' @ analysis_dir_name (float_str E) OUTFILE EMIN EMAX)
                     (cwd w) (files w)))
             (cwd w) (analysis_dir_name (float_str E) OUTFILE EMIN EMAX) of
        None \<Rightarrow> Inl OSError
      | Some d \<Rightarrow>
          Inr (analysis_dir_name (float_str E) OUTFILE EMIN EMAX,
               \<lparr>cwd = d,
                files = snd (shell E
                  (doLAT_command (float_str E) (dict_items E) OUTFILE RA DEC TSTARTS TSTOPS
                     ROI ZMAX EMIN EMAX IRF data_path) d
                  (snd (shell E (''mkdir -p '' @ analysis_dir_name (float_str E) OUTFILE EMIN EMAX)
                     (cwd w) (files w)))),
                trace = trace w @
                  [System (''mkdir -p '' @ analysis_dir_name (float_str E) OUTFILE EMIN EMAX),
                   Chdir (analysis_dir_name (float_str E) OUTFILE EMIN EMAX),
                   Print (doLAT_command (float_str E) (dict_items E) OUTFILE RA DEC TSTARTS TSTOPS
                     ROI ZMAX EMIN EMAX IRF data_path),
                   System (doLAT_command (float_str E) (dict_items E) OUTFILE RA DEC TSTARTS TSTOPS
                     ROI ZMAX EMIN EMAX IRF data_path)]\<rparr>))"
  by (cases w)
     (simp add: doLAT_def os_system_def os_chdir_def py_print_def Let_def split_beta
           split: option.splits)

lemma starts_with_append: "starts_with p (p @ s)"
  by (induction p) simp_all

lemma starts_with_command:
  "starts_with exe_path
     (doLAT_command fs items OUTFILE RA DEC TSTARTS TSTOPS ROI ZMAX EMIN EMAX IRF data_path)"
  by (simp only: doLAT_command_eq starts_with_append)

lemma not_starts_with_mkdir: "\<not> starts_with exe_path (CHR ''m'' # d)"
  by (simp add: exe_path_def)

lemma script_invocations:
  "filter (\<lambda>e. spec_step e = Some 1)
     [System (''mkdir -p '' @ d), Chdir d',
      Print (doLAT_command fs items OUTFILE RA DEC TSTARTS TSTOPS ROI ZMAX EMIN EMAX IRF data_path),
      System (doLAT_command fs items OUTFILE RA DEC TSTARTS TSTOPS ROI ZMAX EMIN EMAX IRF data_path)]
   = [System (doLAT_command fs items OUTFILE RA DEC TSTARTS TSTOPS ROI ZMAX EMIN EMAX IRF data_path)]"
  by (simp add: starts_with_command not_starts_with_mkdir)

lemma example_env_sel:
  "float_str (example_env st g) = stored_float_str"
  "dict_items (example_env st g) = stored_items"
  "shell (example_env st g) = example_shell st"
  "resolve_dir (example_env st g) = example_resolve"
  "glob_glob (example_env st g) = (\<lambda>fs dir pattern. g pattern)"
  "expandvars (example_env st g) = (\<lambda>s. ''/home/user'' @ drop 7 s)"
  by (simp_all add: example_env_def)

lemma example_doLAT_first:
  "doLAT_default (example_env st g) (PyStr ''bn080916009'') (PyFloat 119.889999)
       (PyFloat (- 56.700001)) [PyFloat 3.03] [PyFloat 1531.780029] start_world
   = Inr (''bn080916009_analysis_65-100000'',
          \<lparr>cwd = ''/home/user/work/bn080916009_analysis_65-100000'',
           files = [''/home/user/work/bn080916009_analysis_65-100000''],
           trace = [System ''mkdir -p bn080916009_analysis_65-100000'',
                    Chdir ''bn080916009_analysis_65-100000'',
                    Print stored_command_1, System stored_command_1]\<rparr>)"
  apply (simp only: doLAT_default_def doLAT_unfold example_env_sel stored_command_first)
  apply (simp add: analysis_dir_name_def example_shell_def example_resolve_def start_world_def
        str_int_def str_nat.simps digit_char_def stored_command_1_def)
  done

text \<open>
  C3. The value \<open>os.system\<close> returns is dropped, for the script as for \<open>mkdir -p\<close> before it:
  put any exit statuses in place of the ones the shell gives, leaving what the commands do to
  the files, and \<open>doLAT\<close> ends the same way, with the same return value, working directory,
  files and trace, or with the same error. When it returns, the script has been passed to
  \<open>os.system\<close> once. Each call is an application of the shell function inside the
  sequence of \<open>doLAT\<close>: the next statement runs on the world the command left.
\<close>

theorem doLAT_ignores_exit_status:
  "doLAT (E\<lparr>shell := \<lambda>command dir fs. (status command dir fs, snd (shell E command dir fs))\<rparr>)
         OUTFILE RA DEC TSTARTS TSTOPS ROI ZMAX EMIN EMAX IRF data_path w
   = doLAT E OUTFILE RA DEC TSTARTS TSTOPS ROI ZMAX EMIN EMAX IRF data_path w
   \<and> (doLAT E OUTFILE RA DEC TSTARTS TSTOPS ROI ZMAX EMIN EMAX IRF data_path w = Inr (r, w') \<longrightarrow>
        filter (\<lambda>e. spec_step e = Some 1) (drop (length (trace w)) (trace w'))
        = [System (doLAT_command (float_str E) (dict_items E) OUTFILE RA DEC TSTARTS TSTOPS
                     ROI ZMAX EMIN EMAX IRF data_path)])"
proof (intro conjI impI)
  show "doLAT (E\<lparr>shell := \<lambda>command dir fs. (status command dir fs, snd (shell E command dir fs))\<rparr>)
         OUTFILE RA DEC TSTARTS TSTOPS ROI ZMAX EMIN EMAX IRF data_path w
       = doLAT E OUTFILE RA DEC TSTARTS TSTOPS ROI ZMAX EMIN EMAX IRF data_path w"
    by (simp add: doLAT_unfold split: option.splits)
next
  assume "doLAT E OUTFILE RA DEC TSTARTS TSTOPS ROI ZMAX EMIN EMAX IRF data_path w = Inr (r, w')"
  then have "drop (length (trace w)) (trace w') =
      [System (''mkdir -p '' @ analysis_dir_name (float_str E) OUTFILE EMIN EMAX),
       Chdir (analysis_dir_name (float_str E) OUTFILE EMIN EMAX),
       Print (doLAT_command (float_str E) (dict_items E) OUTFILE RA DEC TSTARTS TSTOPS
                ROI ZMAX EMIN EMAX IRF data_path),
       System (doLAT_command (float_str E) (dict_items E) OUTFILE RA DEC TSTARTS TSTOPS
                ROI ZMAX EMIN EMAX IRF data_path)]"
    by (auto simp add: doLAT_unfold split: option.splits)
  then show "filter (\<lambda>e. spec_step e = Some 1) (drop (length (trace w)) (trace w'))
        = [System (doLAT_command (float_str E) (dict_items E) OUTFILE RA DEC TSTARTS TSTOPS
                     ROI ZMAX EMIN EMAX IRF data_path)]"
    by (simp only: script_invocations)
qed

text \<open>The witness: the first call of the notebook in the example environment, where the
  script exits with 0, and with every exit status replaced by 1.\<close>

theorem doLAT_ignores_exit_status_witness:
  "doLAT ((example_env 0 one_match)\<lparr>shell := \<lambda>command dir fs.
            (1, snd (shell (example_env 0 one_match) command dir fs))\<rparr>)
         (PyStr ''bn080916009'') (PyFloat 119.889999) (PyFloat (- 56.700001)) [PyFloat 3.03]
         [PyFloat 1531.780029] (PyFloat 5) (PyInt 105) (PyInt 65) (PyInt 100000)
         (PyStr ''p8_transient010e'') (PyStr ''./'') start_world
   = Inr (''bn080916009_analysis_65-100000'',
          \<lparr>cwd = ''/home/user/work/bn080916009_analysis_65-100000'',
           files = [''/home/user/work/bn080916009_analysis_65-100000''],
           trace = [System ''mkdir -p bn080916009_analysis_65-100000'',
                    Chdir ''bn080916009_analysis_65-100000'',
                    Print stored_command_1, System stored_command_1]\<rparr>)
   \<and> filter (\<lambda>e. spec_step e = Some 1)
        [System ''mkdir -p bn080916009_analysis_65-100000'',
         Chdir ''bn080916009_analysis_65-100000'',
         Print stored_command_1, System stored_command_1]
     = [System stored_command_1]"
  using doLAT_ignores_exit_status [where E = "example_env 0 one_match"
      and status = "\<lambda>command dir fs. 1"
      and OUTFILE = "PyStr ''bn080916009''" and RA = "PyFloat 119.889999"
      and DEC = "PyFloat (- 56.700001)" and TSTARTS = "[PyFloat 3.03]"
      and TSTOPS = "[PyFloat 1531.780029]" and ROI = "PyFloat 5" and ZMAX = "PyInt 105"
      and EMIN = "PyInt 65" and EMAX = "PyInt 100000" and IRF = "PyStr ''p8_transient010e''"
      and data_path = "PyStr ''./''" and w = start_world
      and r = "''bn080916009_analysis_65-100000''"
      and w' = "\<lparr>cwd = ''/home/user/work/bn080916009_analysis_65-100000'',
           files = [''/home/user/work/bn080916009_analysis_65-100000''],
           trace = [System ''mkdir -p bn080916009_analysis_65-100000'',
                    Chdir ''bn080916009_analysis_65-100000'',
                    Print stored_command_1, System stored_command_1]\<rparr>"]
    example_doLAT_first [of 0 one_match, unfolded doLAT_default_def]
  apply (simp only: example_env_sel stored_command_first)
  apply (simp add: start_world_def)
  done


section \<open>The source model\<close>

lemma createSrcModel_eq:
  "createSrcModel L src_name ra dec redshift index =
     Inr \<lparr>ps_name = src_name, ps_ra = ra, ps_dec = dec,
          spectral_shape =
            Product
              (Powerlaw
                 \<lparr>pl_K = (pl_K (new_Powerlaw L))
                           \<lparr>par_prior := Some (Log_uniform_prior (1 / 10 ^ 20) (1 / 10 ^ 10))\<rparr>,
                  pl_piv = (pl_piv (new_Powerlaw L))\<lparr>par_value := 500000\<rparr>,
                  pl_index = \<lparr>par_value = index, par_free = False,
                              par_prior = Some (Uniform_prior (- 5) 5)\<rparr>\<rparr>)
              (EBLattenuation
                 \<lparr>ebl_redshift = (ebl_redshift (new_EBLattenuation L))\<lparr>par_value := redshift\<rparr>,
                  ebl_attenuation = \<lparr>par_value = par_value (ebl_attenuation (new_EBLattenuation L)),
                                     par_free = True, par_prior = Some (Uniform_prior 0 2)\<rparr>\<rparr>)\<rparr>"
  by (cases L, cases "new_Powerlaw L", cases "new_EBLattenuation L",
      cases "pl_index (new_Powerlaw L)", cases "ebl_attenuation (new_EBLattenuation L)")
     (simp add: createSrcModel_def Let_def)

text \<open>
  C6. Every call of \<open>createSrcModel\<close> returns, and what it returns is a point source of the
  given name and position whose spectral shape is the product of a \<open>Powerlaw\<close> and an
  \<open>EBLattenuation\<close> component, the redshift of the attenuation set to the given redshift.
\<close>

theorem createSrcModel_shape:
  "\<exists>pl e. createSrcModel L src_name ra dec redshift index =
            Inr \<lparr>ps_name = src_name, ps_ra = ra, ps_dec = dec,
                 spectral_shape = Product (Powerlaw pl) (EBLattenuation e)\<rparr>
          \<and> par_value (ebl_redshift e) = redshift"
  by (simp add: createSrcModel_eq)

lemma createSrcModel_calls_eq:
  "createSrcModel_calls raises L src_name ra dec redshift index =
     (case first_raise raises (createSrcModel_ops src_name ra dec redshift index) of
        None \<Rightarrow> (createSrcModel_ops src_name ra dec redshift index,
                 createSrcModel L src_name ra dec redshift index)
      | Some (made, e) \<Rightarrow> (made, Inl e))"
  by (simp add: createSrcModel_calls_def createSrcModel_ops_def createSrcModel_def Let_def
        lib_call_def and_then_def split: option.splits)

lemma example_doLAT:
  "doLAT (example_env st g) OUTFILE RA DEC TSTARTS TSTOPS ROI ZMAX EMIN EMAX IRF data_path w =
     Inr (analysis_dir_name stored_float_str OUTFILE EMIN EMAX,
          \<lparr>cwd = cwd w @ ''/'' @ analysis_dir_name stored_float_str OUTFILE EMIN EMAX,
           files = files w @ [cwd w @ ''/'' @ analysis_dir_name stored_float_str OUTFILE EMIN EMAX],
           trace = trace w @
             [System (''mkdir -p '' @ analysis_dir_name stored_float_str OUTFILE EMIN EMAX),
              Chdir (analysis_dir_name stored_float_str OUTFILE EMIN EMAX),
              Print (doLAT_command stored_float_str stored_items OUTFILE RA DEC TSTARTS TSTOPS
                       ROI ZMAX EMIN EMAX IRF data_path),
              System (doLAT_command stored_float_str stored_items OUTFILE RA DEC TSTARTS TSTOPS
                       ROI ZMAX EMIN EMAX IRF data_path)]\<rparr>)"
proof -
  have c: "\<not> starts_with ''mkdir -p ''
     (doLAT_command stored_float_str stored_items OUTFILE RA DEC TSTARTS TSTOPS
                       ROI ZMAX EMIN EMAX IRF data_path)"
    by (simp add: doLAT_command_eq exe_path_def)
  have m: "starts_with ''mkdir -p '' (''mkdir -p '' @ d)" for d
    by (rule starts_with_append)
  have d: "drop 9 (''mkdir -p '' @ d) = d" for d
    by simp
  show ?thesis
    by (simp only: doLAT_unfold example_env_sel example_shell_def example_resolve_def c m d
        if_True if_False snd_conv) simp
qed

section \<open>The traces of the cells\<close>

lemma discover_files_eq:
  "discover_files E directory w =
     (if glob_glob E (files w) (cwd w) (directory @ ''/*_filt.fit'') = []
         \<or> glob_glob E (files w) (cwd w) (directory @ ''/*_filt_expomap.fit'') = []
         \<or> glob_glob E (files w) (cwd w) (directory @ ''/*_filt_ltcube.fit'') = []
      then Inl IndexError
      else Inr ((hd (glob_glob E (files w) (cwd w) (directory @ ''/*_filt.fit'')),
                 hd (glob_glob E (files w) (cwd w) (directory @ ''/*_filt_expomap.fit'')),
                 hd (glob_glob E (files w) (cwd w) (directory @ ''/*_filt_ltcube.fit''))),
                w\<lparr>trace := trace w @
                   [Glob (directory @ ''/*_filt.fit''),
                    Glob (directory @ ''/*_filt_expomap.fit''),
                    Glob (directory @ ''/*_filt_ltcube.fit'')]\<rparr>))"
  by (simp add: discover_files_def glob_first_def split: list.splits)

lemma doLAT_trace:
  assumes "doLAT E OUTFILE RA DEC TSTARTS TSTOPS ROI ZMAX EMIN EMAX IRF data_path w = Inr (r, w')"
  shows "r = analysis_dir_name (float_str E) OUTFILE EMIN EMAX
       \<and> trace w' = trace w @
          [System (''mkdir -p '' @ analysis_dir_name (float_str E) OUTFILE EMIN EMAX),
           Chdir (analysis_dir_name (float_str E) OUTFILE EMIN EMAX),
           Print (doLAT_command (float_str E) (dict_items E) OUTFILE RA DEC TSTARTS TSTOPS
                    ROI ZMAX EMIN EMAX IRF data_path),
           System (doLAT_command (float_str E) (dict_items E) OUTFILE RA DEC TSTARTS TSTOPS
                    ROI ZMAX EMIN EMAX IRF data_path)]
       \<and> resolve_dir E
             (snd (shell E (''mkdir -p '' @ analysis_dir_name (float_str E) OUTFILE EMIN EMAX)
                     (cwd w) (files w)))
             (cwd w) (analysis_dir_name (float_str E) OUTFILE EMIN EMAX) = Some (cwd w')"
  using assms by (auto simp add: doLAT_unfold split: option.splits)

lemma steps_of_append: "steps_of (xs @ ys) = steps_of xs @ steps_of ys"
  by (simp add: steps_of_def)

lemma steps_of_doLAT:
  "steps_of [System (''mkdir -p '' @ d), Chdir d',
     Print (doLAT_command fs items OUTFILE RA DEC TSTARTS TSTOPS ROI ZMAX EMIN EMAX IRF data_path),
     System (doLAT_command fs items OUTFILE RA DEC TSTARTS TSTOPS ROI ZMAX EMIN EMAX IRF data_path)]
   = [1]"
  by (simp add: steps_of_def starts_with_command not_starts_with_mkdir)

lemma source_cell_Inr:
  assumes "source_cell E L trigger_id ra dec redshift index tstart tstop w = Inr (s, p, w')"
  shows "\<exists>r w1.
      createSrcModel L trigger_id ra dec redshift index = Inr s
    \<and> doLAT_default E (PyStr trigger_id) (PyFloat ra) (PyFloat dec) [PyFloat tstart]
        [PyFloat tstop] (record_call ''createSrcModel'' [trigger_id] w) = Inr (r, w1)
    \<and> discover_files E (interval_directory (float_str E) tstart tstop) w1
        = Inr ((event_file p, exposure_map p, livetime_cube p),
               w1\<lparr>trace := trace w1 @
                   [Glob (interval_directory (float_str E) tstart tstop @ ''/*_filt.fit''),
                    Glob (interval_directory (float_str E) tstart tstop @ ''/*_filt_expomap.fit''),
                    Glob (interval_directory (float_str E) tstart tstop @ ''/*_filt_ltcube.fit'')]\<rparr>)
    \<and> ft2_file p = ft2_path E trigger_id
    \<and> plugin_name p = trigger_id
    \<and> cwd w' = cwd w1 \<and> files w' = files w1
    \<and> trace w' = trace w1 @
         [Glob (interval_directory (float_str E) tstart tstop @ ''/*_filt.fit''),
          Glob (interval_directory (float_str E) tstart tstop @ ''/*_filt_expomap.fit''),
          Glob (interval_directory (float_str E) tstart tstop @ ''/*_filt_ltcube.fit''),
          Call ''FermiLATLike''
            [trigger_id, event_file p, ft2_file p, livetime_cube p, ''unbinned'',
             exposure_map p, trigger_id]]"
proof -
  let ?d = "doLAT_default E (PyStr trigger_id) (PyFloat ra) (PyFloat dec) [PyFloat tstart]
        [PyFloat tstop] (record_call ''createSrcModel'' [trigger_id] w)"
  obtain s0 where c0: "createSrcModel L trigger_id ra dec redshift index = Inr s0"
    by (simp add: createSrcModel_eq)
  from assms c0 obtain r w1 where d: "?d = Inr (r, w1)"
    by (cases ?d) (auto simp add: source_cell_def)
  from assms c0 d have "s0 = s"
    by (auto simp add: source_cell_def Let_def split: sum.splits prod.splits)
  with c0 have c: "createSrcModel L trigger_id ra dec redshift index = Inr s"
    by simp
  from assms c d show ?thesis
    by (auto simp add: source_cell_def Let_def discover_files_eq record_call_def
             split: if_splits)
qed

lemma source_cell_steps:
  assumes "source_cell E L trigger_id ra dec redshift index tstart tstop w = Inr (s, p, w')"
  shows "\<exists>evs. trace w' = trace w @ evs \<and> steps_of evs = [3, 1, 2, 2, 2, 4]"
proof -
  from source_cell_Inr [OF assms] obtain r w1 where
    d: "doLAT_default E (PyStr trigger_id) (PyFloat ra) (PyFloat dec) [PyFloat tstart]
        [PyFloat tstop] (record_call ''createSrcModel'' [trigger_id] w) = Inr (r, w1)"
    and t: "trace w' = trace w1 @
         [Glob (interval_directory (float_str E) tstart tstop @ ''/*_filt.fit''),
          Glob (interval_directory (float_str E) tstart tstop @ ''/*_filt_expomap.fit''),
          Glob (interval_directory (float_str E) tstart tstop @ ''/*_filt_ltcube.fit''),
          Call ''FermiLATLike''
            [trigger_id, event_file p, ft2_file p, livetime_cube p, ''unbinned'',
             exposure_map p, trigger_id]]"
    by blast
  let ?cmd = "doLAT_command (float_str E) (dict_items E) (PyStr trigger_id) (PyFloat ra)
      (PyFloat dec) [PyFloat tstart] [PyFloat tstop] (PyFloat 5) (PyInt 105) (PyInt 65)
      (PyInt 100000) (PyStr ''p8_transient010e'') (PyStr ''./'')"
  let ?dir = "analysis_dir_name (float_str E) (PyStr trigger_id) (PyInt 65) (PyInt 100000)"
  let ?lat = "[System (''mkdir -p '' @ ?dir), Chdir ?dir, Print ?cmd, System ?cmd]"
  let ?rest = "[Glob (interval_directory (float_str E) tstart tstop @ ''/*_filt.fit''),
          Glob (interval_directory (float_str E) tstart tstop @ ''/*_filt_expomap.fit''),
          Glob (interval_directory (float_str E) tstart tstop @ ''/*_filt_ltcube.fit''),
          Call ''FermiLATLike''
            [trigger_id, event_file p, ft2_file p, livetime_cube p, ''unbinned'',
             exposure_map p, trigger_id]]"
  from doLAT_trace [OF d [unfolded doLAT_default_def]]
  have "trace w1 = trace (record_call ''createSrcModel'' [trigger_id] w) @ ?lat"
    by simp
  then have w1: "trace w1 = trace w @ [Call ''createSrcModel'' [trigger_id]] @ ?lat"
    by (simp add: record_call_def)
  have s1: "steps_of [Call ''createSrcModel'' [trigger_id]] = [3]"
    by (simp add: steps_of_def)
  have s3: "steps_of ?rest = [2, 2, 2, 4]"
    by (simp add: steps_of_def)
  have "trace w' = trace w @ ([Call ''createSrcModel'' [trigger_id]] @ ?lat @ ?rest)"
    using t w1 by simp
  moreover have "steps_of ([Call ''createSrcModel'' [trigger_id]] @ ?lat @ ?rest) = [3, 1, 2, 2, 2, 4]"
    by (simp only: steps_of_append s1 s3 steps_of_doLAT) simp
  ultimately show ?thesis by blast
qed

lemma link_arguments_Inr:
  assumes "link_arguments m = Inr (p1, p2)"
  shows "p1 = (''bn080916009'', ''attenuation_2'') \<and> p2 = (''bn090102122'', ''attenuation_2'')"
  using assms
  by (auto simp add: link_arguments_def attenuation_2_of_def
           split: sum.splits option.splits if_splits)

lemma link_and_sample_Inr:
  assumes "link_and_sample_cell source_1 source_2 lat_plugin_1 lat_plugin_2 w = Inr (bayes, w')"
  shows "analysis_model bayes =
           \<lparr>sources = [source_1, source_2],
            links = [((''bn080916009'', ''attenuation_2''), (''bn090102122'', ''attenuation_2''))]\<rparr>
       \<and> trace w' = trace w @
           [Call ''Model'' [ps_name source_1, ps_name source_2],
            Call ''link'' [''bn080916009.spectrum.main.composite.attenuation_2'',
                           ''bn090102122.spectrum.main.composite.attenuation_2''],
            Call ''set_model'' [plugin_name lat_plugin_1],
            Call ''set_model'' [plugin_name lat_plugin_2],
            Call ''DataList'' [plugin_name lat_plugin_1, plugin_name lat_plugin_2],
            Call ''BayesianAnalysis'' [],
            Call ''set_uninformative_prior'' [''bn080916009_GalacticTemplate_Value''],
            Call ''set_uninformative_prior'' [''bn080916009_IsotropicTemplate_Normalization''],
            Call ''set_uninformative_prior'' [''bn090102122_GalacticTemplate_Value''],
            Call ''set_uninformative_prior'' [''bn090102122_IsotropicTemplate_Normalization''],
            Call ''set_sampler'' [''ultranest''],
            Call ''setup'' [],
            Call ''sample'' []]"
proof -
  let ?m = "\<lparr>sources = [source_1, source_2], links = []\<rparr>"
  from assms obtain p1 p2 where l: "link_arguments ?m = Inr (p1, p2)"
    by (cases "link_arguments ?m") (auto simp add: link_and_sample_cell_def Let_def)
  from link_arguments_Inr [OF l]
  have p: "p1 = (''bn080916009'', ''attenuation_2'')" "p2 = (''bn090102122'', ''attenuation_2'')"
    by simp_all
  from assms l show ?thesis
    unfolding p
    by (auto simp add: link_and_sample_cell_def Let_def link_def record_call_def
          set_priors_def param_string_def)
qed

lemma steps_of_link_and_sample:
  "steps_of
     [Call ''Model'' ms, Call ''link'' ls, Call ''set_model'' a, Call ''set_model'' b,
      Call ''DataList'' ds, Call ''BayesianAnalysis'' [],
      Call ''set_uninformative_prior'' p1, Call ''set_uninformative_prior'' p2,
      Call ''set_uninformative_prior'' p3, Call ''set_uninformative_prior'' p4,
      Call ''set_sampler'' ss, Call ''setup'' [], Call ''sample'' []]
   = [3, 5, 6, 6, 6, 6]"
  by (simp add: steps_of_def)

lemma notebook_Inr:
  assumes "notebook E L w = Inr (bayes, w')"
  shows "\<exists>source_1 lat_plugin_1 w1 source_2 lat_plugin_2 w2 w3.
      source_cell E L ''bn080916009'' 119.889999 (- 56.700001) 4.350 (- 2.072603)
          3.03 1531.780029 w = Inr (source_1, lat_plugin_1, w1)
    \<and> source_cell E L ''bn090102122'' 127.559998 33.459999 1.547 (- 0.062906)
          3915.889893 4404.799805 w1 = Inr (source_2, lat_plugin_2, w2)
    \<and> link_and_sample_cell source_1 source_2 lat_plugin_1 lat_plugin_2 w2 = Inr (bayes, w3)
    \<and> w' = plot_cell (display_cell w3)"
  using assms unfolding notebook_def
  by (simp split: sum.splits prod.splits)

lemma notebook_steps:
  assumes "notebook E L w = Inr (bayes, w')"
  shows "steps_of (drop (length (trace w)) (trace w')) =
           [3, 1, 2, 2, 2, 4, 3, 1, 2, 2, 2, 4, 3, 5, 6, 6, 6, 6, 7, 7, 7]"
proof -
  from notebook_Inr [OF assms] obtain source_1 lat_plugin_1 w1 source_2 lat_plugin_2 w2 w3
    where c1: "source_cell E L ''bn080916009'' 119.889999 (- 56.700001) 4.350 (- 2.072603)
          3.03 1531.780029 w = Inr (source_1, lat_plugin_1, w1)"
      and c2: "source_cell E L ''bn090102122'' 127.559998 33.459999 1.547 (- 0.062906)
          3915.889893 4404.799805 w1 = Inr (source_2, lat_plugin_2, w2)"
      and c3: "link_and_sample_cell source_1 source_2 lat_plugin_1 lat_plugin_2 w2 = Inr (bayes, w3)"
      and c4: "w' = plot_cell (display_cell w3)"
    by blast
  from source_cell_steps [OF c1] obtain e1 where
    e1: "trace w1 = trace w @ e1" "steps_of e1 = [3, 1, 2, 2, 2, 4]" by blast
  from source_cell_steps [OF c2] obtain e2 where
    e2: "trace w2 = trace w1 @ e2" "steps_of e2 = [3, 1, 2, 2, 2, 4]" by blast
  from link_and_sample_Inr [OF c3] obtain e3 where
    e3: "trace w3 = trace w2 @ e3" "steps_of e3 = [3, 5, 6, 6, 6, 6]"
    by (simp add: steps_of_link_and_sample)
  have e4: "trace w' = trace w3 @ [Call ''display'' [], Call ''plot_spectra'' [], Call ''show'' []]"
    by (simp add: c4 plot_cell_def display_cell_def record_call_def)
  have s4: "steps_of [Call ''display'' [], Call ''plot_spectra'' [], Call ''show'' []] = [7, 7, 7]"
    by (simp add: steps_of_def)
  have "trace w' = trace w @ (e1 @ e2 @ e3
          @ [Call ''display'' [], Call ''plot_spectra'' [], Call ''show'' []])"
    by (simp add: e1 e2 e3 e4)
  then have "drop (length (trace w)) (trace w') =
          e1 @ e2 @ e3 @ [Call ''display'' [], Call ''plot_spectra'' [], Call ''show'' []]"
    by simp
  then show ?thesis
    by (simp only: steps_of_append e1 e2 e3 s4) simp
qed

section \<open>Runs in the example environment\<close>

lemma example_source_cell:
  assumes "g (interval_directory stored_float_str tstart tstop @ ''/*_filt.fit'') \<noteq> []"
    and "g (interval_directory stored_float_str tstart tstop @ ''/*_filt_expomap.fit'') \<noteq> []"
    and "g (interval_directory stored_float_str tstart tstop @ ''/*_filt_ltcube.fit'') \<noteq> []"
    and "createSrcModel L trigger_id ra dec redshift index = Inr s"
  shows "source_cell (example_env st g) L trigger_id ra dec redshift index tstart tstop w =
     Inr (s,
          \<lparr>plugin_name = trigger_id,
           event_file = hd (g (interval_directory stored_float_str tstart tstop @ ''/*_filt.fit'')),
           ft2_file = ''/home/user/FermiData/'' @ trigger_id @ ''/gll_ft2_tr_'' @ trigger_id @ ''_v00.fit'',
           livetime_cube = hd (g (interval_directory stored_float_str tstart tstop @ ''/*_filt_ltcube.fit'')),
           kind = ''unbinned'',
           exposure_map = hd (g (interval_directory stored_float_str tstart tstop @ ''/*_filt_expomap.fit'')),
           source_name = trigger_id, plugin_model_set = False\<rparr>,
          \<lparr>cwd = cwd w @ ''/'' @ trigger_id @ ''_analysis_65-100000'',
           files = files w @ [cwd w @ ''/'' @ trigger_id @ ''_analysis_65-100000''],
           trace = trace w @
             [Call ''createSrcModel'' [trigger_id],
              System (''mkdir -p '' @ trigger_id @ ''_analysis_65-100000''),
              Chdir (trigger_id @ ''_analysis_65-100000''),
              Print (doLAT_command stored_float_str stored_items (PyStr trigger_id) (PyFloat ra)
                (PyFloat dec) [PyFloat tstart] [PyFloat tstop] (PyFloat 5) (PyInt 105) (PyInt 65)
                (PyInt 100000) (PyStr ''p8_transient010e'') (PyStr ''./'')),
              System (doLAT_command stored_float_str stored_items (PyStr trigger_id) (PyFloat ra)
                (PyFloat dec) [PyFloat tstart] [PyFloat tstop] (PyFloat 5) (PyInt 105) (PyInt 65)
                (PyInt 100000) (PyStr ''p8_transient010e'') (PyStr ''./'')),
              Glob (interval_directory stored_float_str tstart tstop @ ''/*_filt.fit''),
              Glob (interval_directory stored_float_str tstart tstop @ ''/*_filt_expomap.fit''),
              Glob (interval_directory stored_float_str tstart tstop @ ''/*_filt_ltcube.fit''),
              Call ''FermiLATLike''
                [trigger_id,
                 hd (g (interval_directory stored_float_str tstart tstop @ ''/*_filt.fit'')),
                 ''/home/user/FermiData/'' @ trigger_id @ ''/gll_ft2_tr_'' @ trigger_id @ ''_v00.fit'',
                 hd (g (interval_directory stored_float_str tstart tstop @ ''/*_filt_ltcube.fit'')),
                 ''unbinned'',
                 hd (g (interval_directory stored_float_str tstart tstop @ ''/*_filt_expomap.fit'')),
                 trigger_id]]\<rparr>)"
proof -
  have a: "analysis_dir_name stored_float_str (PyStr trigger_id) (PyInt 65) (PyInt 100000)
           = trigger_id @ ''_analysis_65-100000''"
    by (simp add: analysis_dir_name_def str_int_def str_nat.simps digit_char_def)
  show ?thesis
    unfolding source_cell_def doLAT_default_def example_doLAT assms(4) a
    using assms(1-3)
    by (simp add: Let_def discover_files_eq example_env_sel record_call_def ft2_path_def)
qed

lemma first_interval_directory:
  "interval_directory stored_float_str 3.03 1531.780029 = ''./interval3.03-1531.780029/''"
  by (simp add: interval_directory_def stored_float_str_def)

lemma example_first_cell:
  assumes "g ''./interval3.03-1531.780029//*_filt.fit'' = a # as"
    and "g ''./interval3.03-1531.780029//*_filt_expomap.fit'' = b # bs"
    and "g ''./interval3.03-1531.780029//*_filt_ltcube.fit'' = c # cs"
  shows "source_cell (example_env st g) example_lib ''bn080916009'' 119.889999 (- 56.700001)
           4.350 (- 2.072603) 3.03 1531.780029 start_world =
     Inr (projr (createSrcModel example_lib ''bn080916009'' 119.889999 (- 56.700001) 4.350 (- 2.072603)),
          \<lparr>plugin_name = ''bn080916009'', event_file = a,
           ft2_file = ''/home/user/FermiData/bn080916009/gll_ft2_tr_bn080916009_v00.fit'',
           livetime_cube = c, kind = ''unbinned'', exposure_map = b,
           source_name = ''bn080916009'', plugin_model_set = False\<rparr>,
          \<lparr>cwd = ''/home/user/work/bn080916009_analysis_65-100000'',
           files = [''/home/user/work/bn080916009_analysis_65-100000''],
           trace =
             [Call ''createSrcModel'' [''bn080916009''],
              System ''mkdir -p bn080916009_analysis_65-100000'',
              Chdir ''bn080916009_analysis_65-100000'',
              Print stored_command_1,
              System stored_command_1,
              Glob ''./interval3.03-1531.780029//*_filt.fit'',
              Glob ''./interval3.03-1531.780029//*_filt_expomap.fit'',
              Glob ''./interval3.03-1531.780029//*_filt_ltcube.fit'',
              Call ''FermiLATLike''
                [''bn080916009'', a,
                 ''/home/user/FermiData/bn080916009/gll_ft2_tr_bn080916009_v00.fit'',
                 c, ''unbinned'', b, ''bn080916009'']]\<rparr>)"
proof -
  have s: "createSrcModel example_lib ''bn080916009'' 119.889999 (- 56.700001) 4.350 (- 2.072603)
      = Inr (projr (createSrcModel example_lib ''bn080916009'' 119.889999 (- 56.700001) 4.350 (- 2.072603)))"
    by (simp only: createSrcModel_eq sum.sel)
  have g: "g (interval_directory stored_float_str 3.03 1531.780029 @ ''/*_filt.fit'') = a # as"
      "g (interval_directory stored_float_str 3.03 1531.780029 @ ''/*_filt_expomap.fit'') = b # bs"
      "g (interval_directory stored_float_str 3.03 1531.780029 @ ''/*_filt_ltcube.fit'') = c # cs"
    using assms by (simp_all only: first_interval_directory) simp_all
  have n: "g (interval_directory stored_float_str 3.03 1531.780029 @ ''/*_filt.fit'') \<noteq> []"
      "g (interval_directory stored_float_str 3.03 1531.780029 @ ''/*_filt_expomap.fit'') \<noteq> []"
      "g (interval_directory stored_float_str 3.03 1531.780029 @ ''/*_filt_ltcube.fit'') \<noteq> []"
    by (simp_all only: g) simp_all
  show ?thesis
    apply (simp only: example_source_cell [OF n s] g stored_command_first first_interval_directory list.sel)
    apply (simp add: start_world_def assms)
    done
qed

lemma one_match_first:
  "one_match ''./interval3.03-1531.780029//*_filt.fit'' = [''./interval3.03-1531.780029//gll_ft1_tr_filt.fit'']"
  "one_match ''./interval3.03-1531.780029//*_filt_expomap.fit'' = [''./interval3.03-1531.780029//gll_ft1_tr_filt_expomap.fit'']"
  "one_match ''./interval3.03-1531.780029//*_filt_ltcube.fit'' = [''./interval3.03-1531.780029//gll_ft1_tr_filt_ltcube.fit'']"
  by (simp_all add: one_match_def fill_star_def)

lemma two_matches_first:
  "two_matches ''./interval3.03-1531.780029//*_filt.fit'' =
     [''./interval3.03-1531.780029//a_filt.fit'', ''./interval3.03-1531.780029//b_filt.fit'']"
  "two_matches ''./interval3.03-1531.780029//*_filt_expomap.fit'' =
     [''./interval3.03-1531.780029//a_filt_expomap.fit'', ''./interval3.03-1531.780029//b_filt_expomap.fit'']"
  "two_matches ''./interval3.03-1531.780029//*_filt_ltcube.fit'' =
     [''./interval3.03-1531.780029//a_filt_ltcube.fit'', ''./interval3.03-1531.780029//b_filt_ltcube.fit'']"
  by (simp_all add: two_matches_def fill_star_def)

lemma no_expomap_first:
  "no_expomap ''./interval3.03-1531.780029//*_filt.fit'' = [''./interval3.03-1531.780029//gll_ft1_tr_filt.fit'']"
  "no_expomap ''./interval3.03-1531.780029//*_filt_expomap.fit'' = []"
  "no_expomap ''./interval3.03-1531.780029//*_filt_ltcube.fit'' = [''./interval3.03-1531.780029//gll_ft1_tr_filt_ltcube.fit'']"
  by (simp_all add: no_expomap_def fill_star_def)

section \<open>File discovery\<close>

text \<open>
  C2. The file discovery ends in \<open>IndexError\<close> exactly when one of the three patterns
  \<open>*_filt.fit\<close>, \<open>*_filt_expomap.fit\<close>, \<open>*_filt_ltcube.fit\<close> matches nothing in the
  directory; when each pattern has a match it returns the first match of each. Nothing
  catches the error: the cell that runs the discovery after \<open>doLAT\<close> ends in the same
  \<open>IndexError\<close>.
\<close>
theorem discover_files_index_error:
  "(discover_files E directory w = Inl IndexError) =
     (glob_glob E (files w) (cwd w) (directory @ ''/*_filt.fit'') = []
      \<or> glob_glob E (files w) (cwd w) (directory @ ''/*_filt_expomap.fit'') = []
      \<or> glob_glob E (files w) (cwd w) (directory @ ''/*_filt_ltcube.fit'') = [])
   \<and> (glob_glob E (files w) (cwd w) (directory @ ''/*_filt.fit'') \<noteq> []
      \<and> glob_glob E (files w) (cwd w) (directory @ ''/*_filt_expomap.fit'') \<noteq> []
      \<and> glob_glob E (files w) (cwd w) (directory @ ''/*_filt_ltcube.fit'') \<noteq> [] \<longrightarrow>
      (\<exists>w'. discover_files E directory w =
         Inr ((hd (glob_glob E (files w) (cwd w) (directory @ ''/*_filt.fit'')),
               hd (glob_glob E (files w) (cwd w) (directory @ ''/*_filt_expomap.fit'')),
               hd (glob_glob E (files w) (cwd w) (directory @ ''/*_filt_ltcube.fit''))), w')))
   \<and> (doLAT_default E (PyStr trigger_id) (PyFloat ra) (PyFloat dec) [PyFloat tstart]
        [PyFloat tstop] (record_call ''createSrcModel'' [trigger_id] w0) = Inr (r, w)
      \<and> discover_files E (interval_directory (float_str E) tstart tstop) w = Inl IndexError \<longrightarrow>
      source_cell E L trigger_id ra dec redshift index tstart tstop w0 = Inl IndexError)"
proof (intro conjI impI)
  show "(discover_files E directory w = Inl IndexError) =
     (glob_glob E (files w) (cwd w) (directory @ ''/*_filt.fit'') = []
      \<or> glob_glob E (files w) (cwd w) (directory @ ''/*_filt_expomap.fit'') = []
      \<or> glob_glob E (files w) (cwd w) (directory @ ''/*_filt_ltcube.fit'') = [])"
    by (simp add: discover_files_eq)
next
  assume "glob_glob E (files w) (cwd w) (directory @ ''/*_filt.fit'') \<noteq> []
      \<and> glob_glob E (files w) (cwd w) (directory @ ''/*_filt_expomap.fit'') \<noteq> []
      \<and> glob_glob E (files w) (cwd w) (directory @ ''/*_filt_ltcube.fit'') \<noteq> []"
  then show "\<exists>w'. discover_files E directory w =
         Inr ((hd (glob_glob E (files w) (cwd w) (directory @ ''/*_filt.fit'')),
               hd (glob_glob E (files w) (cwd w) (directory @ ''/*_filt_expomap.fit'')),
               hd (glob_glob E (files w) (cwd w) (directory @ ''/*_filt_ltcube.fit''))), w')"
    by (simp add: discover_files_eq)
next
  assume "doLAT_default E (PyStr trigger_id) (PyFloat ra) (PyFloat dec) [PyFloat tstart]
        [PyFloat tstop] (record_call ''createSrcModel'' [trigger_id] w0) = Inr (r, w)
      \<and> discover_files E (interval_directory (float_str E) tstart tstop) w = Inl IndexError"
  then show "source_cell E L trigger_id ra dec redshift index tstart tstop w0 = Inl IndexError"
    by (simp add: source_cell_def createSrcModel_eq Let_def)
qed

lemma example_first_cell_no_expomap:
  "source_cell (example_env st no_expomap) example_lib ''bn080916009'' 119.889999 (- 56.700001)
           4.350 (- 2.072603) 3.03 1531.780029 start_world = Inl IndexError"
  unfolding source_cell_def doLAT_default_def example_doLAT example_env_sel Let_def
    first_interval_directory
  by (simp add: createSrcModel_eq discover_files_eq example_env_sel no_expomap_first)

lemma example_notebook_no_expomap:
  "notebook (example_env st no_expomap) example_lib start_world = Inl IndexError"
  by (simp only: notebook_def example_first_cell_no_expomap sum.case)

text \<open>The witness: in the directory \<open>doLAT\<close> left for the first source, a file system
  without an exposure map and one with a match for every pattern; without the exposure map
  the whole notebook ends in \<open>IndexError\<close>.\<close>

theorem discover_files_index_error_witness:
  "discover_files (example_env 0 no_expomap) ''./interval3.03-1531.780029/''
      \<lparr>cwd = ''/home/user/work/bn080916009_analysis_65-100000'',
       files = [''/home/user/work/bn080916009_analysis_65-100000''], trace = []\<rparr>
     = Inl IndexError
   \<and> discover_files (example_env 0 one_match) ''./interval3.03-1531.780029/''
      \<lparr>cwd = ''/home/user/work/bn080916009_analysis_65-100000'',
       files = [''/home/user/work/bn080916009_analysis_65-100000''], trace = []\<rparr>
     = Inr ((''./interval3.03-1531.780029//gll_ft1_tr_filt.fit'',
             ''./interval3.03-1531.780029//gll_ft1_tr_filt_expomap.fit'',
             ''./interval3.03-1531.780029//gll_ft1_tr_filt_ltcube.fit''),
            \<lparr>cwd = ''/home/user/work/bn080916009_analysis_65-100000'',
             files = [''/home/user/work/bn080916009_analysis_65-100000''],
             trace = [Glob ''./interval3.03-1531.780029//*_filt.fit'',
                      Glob ''./interval3.03-1531.780029//*_filt_expomap.fit'',
                      Glob ''./interval3.03-1531.780029//*_filt_ltcube.fit'']\<rparr>)
   \<and> notebook (example_env 0 no_expomap) example_lib start_world = Inl IndexError"
  using discover_files_index_error [where E = "example_env 0 no_expomap"
      and directory = "''./interval3.03-1531.780029/''"
      and w = "\<lparr>cwd = ''/home/user/work/bn080916009_analysis_65-100000'',
       files = [''/home/user/work/bn080916009_analysis_65-100000''], trace = []\<rparr>"]
    discover_files_index_error [where E = "example_env 0 one_match"
      and directory = "''./interval3.03-1531.780029/''"
      and w = "\<lparr>cwd = ''/home/user/work/bn080916009_analysis_65-100000'',
       files = [''/home/user/work/bn080916009_analysis_65-100000''], trace = []\<rparr>"]
    example_notebook_no_expomap [of 0]
  by (simp add: example_env_sel no_expomap_first one_match_first discover_files_eq)

section \<open>The order of the steps\<close>

lemma example_notebook_returns:
  assumes "\<And>p. g p \<noteq> []"
  shows "\<exists>bayes w'. notebook (example_env st g) L w = Inr (bayes, w')"
proof -
  obtain s1 where s1: "createSrcModel L ''bn080916009'' 119.889999 (- 56.700001) 4.350 (- 2.072603) = Inr s1"
    and sh1: "ps_name s1 = ''bn080916009''" "has_attenuation_2 (spectral_shape s1)"
    by (simp add: createSrcModel_eq)
  obtain s2 where s2: "createSrcModel L ''bn090102122'' 127.559998 33.459999 1.547 (- 0.062906) = Inr s2"
    and sh2: "ps_name s2 = ''bn090102122''" "has_attenuation_2 (spectral_shape s2)"
    by (simp add: createSrcModel_eq)
  have l: "link_arguments \<lparr>sources = [s1, s2], links = []\<rparr>
        = Inr ((''bn080916009'', ''attenuation_2''), (''bn090102122'', ''attenuation_2''))"
    by (simp add: link_arguments_def attenuation_2_of_def sh1 sh2)
  show ?thesis
    unfolding notebook_def
    by (simp only: example_source_cell [OF assms assms assms s1]
        example_source_cell [OF assms assms assms s2] sum.case prod.case)
       (simp add: link_and_sample_cell_def Let_def l)
qed

lemma projr_Inr_pair: "x = Inr (a, b) \<Longrightarrow> x = Inr (fst (projr x), snd (projr x))"
  by simp

lemma example_notebook_projr:
  "notebook (example_env 0 one_match) example_lib start_world =
     Inr (fst (projr (notebook (example_env 0 one_match) example_lib start_world)),
          snd (projr (notebook (example_env 0 one_match) example_lib start_world)))"
proof -
  have "one_match p \<noteq> []" for p by (simp add: one_match_def)
  from example_notebook_returns [of one_match 0 example_lib start_world, OF this]
  obtain bayes w' where "notebook (example_env 0 one_match) example_lib start_world = Inr (bayes, w')"
    by blast
  then show ?thesis by (rule projr_Inr_pair)
qed

text \<open>
  C4, as amended. A run of the notebook that reaches its end does, for each of the two
  sources in turn: build the source object (step 3), invoke the external command (1),
  discover the files by the three patterns (2), instantiate the plugin (4); and after both
  sources: build the joint model (3), link (5), run the sampler (6), display and plot (7).
  The source object is built before the external command is invoked, and the joint model
  after the plugins exist.
\<close>
theorem notebook_step_order:
  assumes "notebook E L w = Inr (bayes, w')"
  shows "steps_of (drop (length (trace w)) (trace w')) =
           [3, 1, 2, 2, 2, 4] @ [3, 1, 2, 2, 2, 4] @ [3, 5, 6, 6, 6, 6, 7, 7, 7]"
  using notebook_steps [OF assms] by simp

theorem notebook_step_order_witness:
  "notebook (example_env 0 one_match) example_lib start_world =
     Inr (fst (projr (notebook (example_env 0 one_match) example_lib start_world)),
          snd (projr (notebook (example_env 0 one_match) example_lib start_world)))
   \<and> steps_of (trace (snd (projr (notebook (example_env 0 one_match) example_lib start_world)))) =
       [3, 1, 2, 2, 2, 4, 3, 1, 2, 2, 2, 4, 3, 5, 6, 6, 6, 6, 7, 7, 7]"
  using notebook_step_order [OF example_notebook_projr] example_notebook_projr
  by (simp add: start_world_def)

text \<open>C4 as stated fails: the cell of the first source, run in the example environment,
  builds the source object before it invokes the external command, so its steps are
  3, 1, 2, 2, 2, 4 and not in the order 1, 2, 3, 4.\<close>

theorem notebook_step_order_counterexample:
  "source_cell (example_env 0 one_match) example_lib ''bn080916009'' 119.889999 (- 56.700001)
           4.350 (- 2.072603) 3.03 1531.780029 start_world =
     Inr (projr (createSrcModel example_lib ''bn080916009'' 119.889999 (- 56.700001) 4.350 (- 2.072603)),
          \<lparr>plugin_name = ''bn080916009'',
           event_file = ''./interval3.03-1531.780029//gll_ft1_tr_filt.fit'',
           ft2_file = ''/home/user/FermiData/bn080916009/gll_ft2_tr_bn080916009_v00.fit'',
           livetime_cube = ''./interval3.03-1531.780029//gll_ft1_tr_filt_ltcube.fit'',
           kind = ''unbinned'',
           exposure_map = ''./interval3.03-1531.780029//gll_ft1_tr_filt_expomap.fit'',
           source_name = ''bn080916009'', plugin_model_set = False\<rparr>,
          \<lparr>cwd = ''/home/user/work/bn080916009_analysis_65-100000'',
           files = [''/home/user/work/bn080916009_analysis_65-100000''],
           trace =
             [Call ''createSrcModel'' [''bn080916009''],
              System ''mkdir -p bn080916009_analysis_65-100000'',
              Chdir ''bn080916009_analysis_65-100000'',
              Print stored_command_1,
              System stored_command_1,
              Glob ''./interval3.03-1531.780029//*_filt.fit'',
              Glob ''./interval3.03-1531.780029//*_filt_expomap.fit'',
              Glob ''./interval3.03-1531.780029//*_filt_ltcube.fit'',
              Call ''FermiLATLike''
                [''bn080916009'', ''./interval3.03-1531.780029//gll_ft1_tr_filt.fit'',
                 ''/home/user/FermiData/bn080916009/gll_ft2_tr_bn080916009_v00.fit'',
                 ''./interval3.03-1531.780029//gll_ft1_tr_filt_ltcube.fit'', ''unbinned'',
                 ''./interval3.03-1531.780029//gll_ft1_tr_filt_expomap.fit'', ''bn080916009'']]\<rparr>)
   \<and> steps_of
        [Call ''createSrcModel'' [''bn080916009''],
         System ''mkdir -p bn080916009_analysis_65-100000'',
         Chdir ''bn080916009_analysis_65-100000'',
         Print stored_command_1,
         System stored_command_1,
         Glob ''./interval3.03-1531.780029//*_filt.fit'',
         Glob ''./interval3.03-1531.780029//*_filt_expomap.fit'',
         Glob ''./interval3.03-1531.780029//*_filt_ltcube.fit'',
         Call ''FermiLATLike''
           [''bn080916009'', ''./interval3.03-1531.780029//gll_ft1_tr_filt.fit'',
            ''/home/user/FermiData/bn080916009/gll_ft2_tr_bn080916009_v00.fit'',
            ''./interval3.03-1531.780029//gll_ft1_tr_filt_ltcube.fit'', ''unbinned'',
            ''./interval3.03-1531.780029//gll_ft1_tr_filt_expomap.fit'', ''bn080916009'']]
       = [3, 1, 2, 2, 2, 4]
   \<and> \<not> sorted [3, 1, 2, 2, 2, 4 :: nat]"
proof -
  have c: "starts_with exe_path stored_command_1"
    using starts_with_command [of stored_float_str stored_items "PyStr ''bn080916009''"
      "PyFloat 119.889999" "PyFloat (- 56.700001)" "[PyFloat 3.03]" "[PyFloat 1531.780029]"
      "PyFloat 5" "PyInt 105" "PyInt 65" "PyInt 100000" "PyStr ''p8_transient010e''" "PyStr ''./''"]
    by (simp only: stored_command_first)
  have m: "\<not> starts_with exe_path ''mkdir -p bn080916009_analysis_65-100000''"
    by (simp add: exe_path_def)
  show ?thesis
    by (simp only: example_first_cell [OF one_match_first]) (simp add: steps_of_def c m)
qed

section \<open>The link and the files consumed\<close>

lemma fitted_value_linked:
  "fitted_value \<lparr>sources = ss, links = [(p, q)]\<rparr> fit r = (if r = p then fit q else fit r)"
  by (simp add: fitted_value_def)

text \<open>
  C5. A run of the notebook that reaches its end has made one link: the model holds the two
  sources \<open>createSrcModel\<close> built, one after the other, and its only link is from
  \<open>attenuation_2\<close> of \<open>bn080916009\<close> to \<open>attenuation_2\<close> of \<open>bn090102122\<close>. So for every
  fit the two attenuations have one value, every other parameter keeps its own, and the
  trace has one link step.
\<close>
theorem notebook_links_attenuation:
  assumes "notebook E L w = Inr (bayes, w')"
  shows "links (analysis_model bayes) =
           [((''bn080916009'', ''attenuation_2''), (''bn090102122'', ''attenuation_2''))]
       \<and> map Inr (sources (analysis_model bayes)) =
           [createSrcModel L ''bn080916009'' 119.889999 (- 56.700001) 4.350 (- 2.072603),
            createSrcModel L ''bn090102122'' 127.559998 33.459999 1.547 (- 0.062906)]
       \<and> (\<forall>fit. fitted_value (analysis_model bayes) fit (''bn080916009'', ''attenuation_2'')
                 = fitted_value (analysis_model bayes) fit (''bn090102122'', ''attenuation_2''))
       \<and> (\<forall>fit p. p \<noteq> (''bn080916009'', ''attenuation_2'') \<longrightarrow>
                 fitted_value (analysis_model bayes) fit p = fit p)
       \<and> filter (\<lambda>k. k = 5) (steps_of (drop (length (trace w)) (trace w'))) = [5]"
proof -
  from notebook_Inr [OF assms] obtain source_1 lat_plugin_1 w1 source_2 lat_plugin_2 w2 w3
    where c1: "source_cell E L ''bn080916009'' 119.889999 (- 56.700001) 4.350 (- 2.072603)
          3.03 1531.780029 w = Inr (source_1, lat_plugin_1, w1)"
      and c2: "source_cell E L ''bn090102122'' 127.559998 33.459999 1.547 (- 0.062906)
          3915.889893 4404.799805 w1 = Inr (source_2, lat_plugin_2, w2)"
      and c3: "link_and_sample_cell source_1 source_2 lat_plugin_1 lat_plugin_2 w2 = Inr (bayes, w3)"
    by blast
  from source_cell_Inr [OF c1]
  have s1: "createSrcModel L ''bn080916009'' 119.889999 (- 56.700001) 4.350 (- 2.072603) = Inr source_1"
    by blast
  from source_cell_Inr [OF c2]
  have s2: "createSrcModel L ''bn090102122'' 127.559998 33.459999 1.547 (- 0.062906) = Inr source_2"
    by blast
  from link_and_sample_Inr [OF c3]
  have m: "analysis_model bayes =
           \<lparr>sources = [source_1, source_2],
            links = [((''bn080916009'', ''attenuation_2''), (''bn090102122'', ''attenuation_2''))]\<rparr>"
    by blast
  have five: "filter (\<lambda>k. k = 5) (steps_of (drop (length (trace w)) (trace w'))) = [5]"
    by (simp only: notebook_steps [OF assms]) simp
  show ?thesis
    unfolding m s1 s2 fitted_value_linked
    using five by simp
qed

theorem notebook_links_attenuation_witness:
  "notebook (example_env 0 one_match) example_lib start_world =
     Inr (fst (projr (notebook (example_env 0 one_match) example_lib start_world)),
          snd (projr (notebook (example_env 0 one_match) example_lib start_world)))
   \<and> links (analysis_model (fst (projr (notebook (example_env 0 one_match) example_lib start_world))))
     = [((''bn080916009'', ''attenuation_2''), (''bn090102122'', ''attenuation_2''))]"
  using notebook_links_attenuation [OF example_notebook_projr] example_notebook_projr
  by simp

text \<open>
  C7, as amended. When the cell of a source reaches its end, the files its plugin is built
  from are the first match of \<open>*_filt.fit\<close>, of \<open>*_filt_ltcube.fit\<close> and of
  \<open>*_filt_expomap.fit\<close> in \<open>./interval<tstart>-<tstop>/\<close> (looked up in the working
  directory \<open>doLAT\<close> left), each pattern having a match, and the spacecraft file
  \<open>${HOME}/FermiData/<trigger>/gll_ft2_tr_<trigger>_v00.fit\<close>, whose path no pattern gives.
\<close>
theorem source_cell_consumed_files:
  assumes "source_cell E L trigger_id ra dec redshift index tstart tstop w = Inr (s, p, w')"
  shows "consumed_files p =
           [hd (glob_glob E (files w') (cwd w')
                  (''./interval'' @ float_str E tstart @ ''-'' @ float_str E tstop @ ''/'' @ ''/*_filt.fit'')),
            expandvars E ''${HOME}/FermiData'' @ ''/'' @ trigger_id @ ''/gll_ft2_tr_'' @ trigger_id @ ''_v00.fit'',
            hd (glob_glob E (files w') (cwd w')
                  (''./interval'' @ float_str E tstart @ ''-'' @ float_str E tstop @ ''/'' @ ''/*_filt_ltcube.fit'')),
            hd (glob_glob E (files w') (cwd w')
                  (''./interval'' @ float_str E tstart @ ''-'' @ float_str E tstop @ ''/'' @ ''/*_filt_expomap.fit''))]
       \<and> glob_glob E (files w') (cwd w')
            (''./interval'' @ float_str E tstart @ ''-'' @ float_str E tstop @ ''/'' @ ''/*_filt.fit'') \<noteq> []
       \<and> glob_glob E (files w') (cwd w')
            (''./interval'' @ float_str E tstart @ ''-'' @ float_str E tstop @ ''/'' @ ''/*_filt_ltcube.fit'') \<noteq> []
       \<and> glob_glob E (files w') (cwd w')
            (''./interval'' @ float_str E tstart @ ''-'' @ float_str E tstop @ ''/'' @ ''/*_filt_expomap.fit'') \<noteq> []"
proof -
  from source_cell_Inr [OF assms] obtain r w1 where
    d: "discover_files E (interval_directory (float_str E) tstart tstop) w1
        = Inr ((event_file p, exposure_map p, livetime_cube p),
               w1\<lparr>trace := trace w1 @
                   [Glob (interval_directory (float_str E) tstart tstop @ ''/*_filt.fit''),
                    Glob (interval_directory (float_str E) tstart tstop @ ''/*_filt_expomap.fit''),
                    Glob (interval_directory (float_str E) tstart tstop @ ''/*_filt_ltcube.fit'')]\<rparr>)"
    and f: "ft2_file p = ft2_path E trigger_id"
    and w: "cwd w' = cwd w1" "files w' = files w1"
    by blast
  have i: "interval_directory (float_str E) tstart tstop
      = ''./interval'' @ float_str E tstart @ ''-'' @ float_str E tstop @ ''/''"
    by (simp add: interval_directory_def)
  from d show ?thesis
    unfolding consumed_files_def f w i
    by (simp add: discover_files_eq ft2_path_def split: if_splits)
qed

theorem source_cell_consumed_files_witness:
  "source_cell (example_env 0 one_match) example_lib ''bn080916009'' 119.889999 (- 56.700001)
           4.350 (- 2.072603) 3.03 1531.780029 start_world =
     Inr (projr (createSrcModel example_lib ''bn080916009'' 119.889999 (- 56.700001) 4.350 (- 2.072603)),
          \<lparr>plugin_name = ''bn080916009'',
           event_file = ''./interval3.03-1531.780029//gll_ft1_tr_filt.fit'',
           ft2_file = ''/home/user/FermiData/bn080916009/gll_ft2_tr_bn080916009_v00.fit'',
           livetime_cube = ''./interval3.03-1531.780029//gll_ft1_tr_filt_ltcube.fit'',
           kind = ''unbinned'',
           exposure_map = ''./interval3.03-1531.780029//gll_ft1_tr_filt_expomap.fit'',
           source_name = ''bn080916009'', plugin_model_set = False\<rparr>,
          snd (snd (projr (source_cell (example_env 0 one_match) example_lib ''bn080916009''
            119.889999 (- 56.700001) 4.350 (- 2.072603) 3.03 1531.780029 start_world))))
   \<and> consumed_files
        \<lparr>plugin_name = ''bn080916009'',
         event_file = ''./interval3.03-1531.780029//gll_ft1_tr_filt.fit'',
         ft2_file = ''/home/user/FermiData/bn080916009/gll_ft2_tr_bn080916009_v00.fit'',
         livetime_cube = ''./interval3.03-1531.780029//gll_ft1_tr_filt_ltcube.fit'',
         kind = ''unbinned'',
         exposure_map = ''./interval3.03-1531.780029//gll_ft1_tr_filt_expomap.fit'',
         source_name = ''bn080916009'', plugin_model_set = False\<rparr>
     = [''./interval3.03-1531.780029//gll_ft1_tr_filt.fit'',
        ''/home/user/FermiData/bn080916009/gll_ft2_tr_bn080916009_v00.fit'',
        ''./interval3.03-1531.780029//gll_ft1_tr_filt_ltcube.fit'',
        ''./interval3.03-1531.780029//gll_ft1_tr_filt_expomap.fit'']"
proof -
  let ?c = "source_cell (example_env 0 one_match) example_lib ''bn080916009'' 119.889999
      (- 56.700001) 4.350 (- 2.072603) 3.03 1531.780029 start_world"
  let ?p = "\<lparr>plugin_name = ''bn080916009'',
         event_file = ''./interval3.03-1531.780029//gll_ft1_tr_filt.fit'',
         ft2_file = ''/home/user/FermiData/bn080916009/gll_ft2_tr_bn080916009_v00.fit'',
         livetime_cube = ''./interval3.03-1531.780029//gll_ft1_tr_filt_ltcube.fit'',
         kind = ''unbinned'',
         exposure_map = ''./interval3.03-1531.780029//gll_ft1_tr_filt_expomap.fit'',
         source_name = ''bn080916009'', plugin_model_set = False\<rparr>"
  have h: "?c = Inr (projr (createSrcModel example_lib ''bn080916009'' 119.889999 (- 56.700001)
      4.350 (- 2.072603)), ?p, snd (snd (projr ?c)))"
    by (simp only: example_first_cell [OF one_match_first] sum.sel snd_conv)
  from source_cell_consumed_files [OF h] h show ?thesis
    by (simp add: consumed_files_def)
qed

text \<open>C7 as stated fails: where every pattern matches two files, the second match of
  \<open>*_filt.fit\<close> is matched and not consumed, and the spacecraft file is consumed and not
  matched.\<close>

theorem source_cell_consumed_files_counterexample:
  "consumed_files (fst (snd (projr
      (source_cell (example_env 0 two_matches) example_lib ''bn080916009'' 119.889999 (- 56.700001)
         4.350 (- 2.072603) 3.03 1531.780029 start_world))))
     = [''./interval3.03-1531.780029//a_filt.fit'',
        ''/home/user/FermiData/bn080916009/gll_ft2_tr_bn080916009_v00.fit'',
        ''./interval3.03-1531.780029//a_filt_ltcube.fit'',
        ''./interval3.03-1531.780029//a_filt_expomap.fit'']
   \<and> matched_files (example_env 0 two_matches) ''./interval3.03-1531.780029/''
       (snd (snd (projr
         (source_cell (example_env 0 two_matches) example_lib ''bn080916009'' 119.889999 (- 56.700001)
            4.350 (- 2.072603) 3.03 1531.780029 start_world))))
     = [''./interval3.03-1531.780029//a_filt.fit'', ''./interval3.03-1531.780029//b_filt.fit'',
        ''./interval3.03-1531.780029//a_filt_expomap.fit'', ''./interval3.03-1531.780029//b_filt_expomap.fit'',
        ''./interval3.03-1531.780029//a_filt_ltcube.fit'', ''./interval3.03-1531.780029//b_filt_ltcube.fit'']
   \<and> ''./interval3.03-1531.780029//b_filt.fit''
       \<notin> set [''./interval3.03-1531.780029//a_filt.fit'',
        ''/home/user/FermiData/bn080916009/gll_ft2_tr_bn080916009_v00.fit'',
        ''./interval3.03-1531.780029//a_filt_ltcube.fit'',
        ''./interval3.03-1531.780029//a_filt_expomap.fit'']
   \<and> ''/home/user/FermiData/bn080916009/gll_ft2_tr_bn080916009_v00.fit''
       \<notin> set [''./interval3.03-1531.780029//a_filt.fit'', ''./interval3.03-1531.780029//b_filt.fit'',
        ''./interval3.03-1531.780029//a_filt_expomap.fit'', ''./interval3.03-1531.780029//b_filt_expomap.fit'',
        ''./interval3.03-1531.780029//a_filt_ltcube.fit'', ''./interval3.03-1531.780029//b_filt_ltcube.fit'']"
  by (simp only: example_first_cell [OF two_matches_first] sum.sel snd_conv fst_conv)
     (simp add: consumed_files_def matched_files_def example_env_sel two_matches_first)

section \<open>The shape of the helpers and the working directory\<close>

text \<open>
  C8. \<open>doLAT\<close> has one way through: if \<open>os.chdir\<close> raises, \<open>doLAT\<close> ends with that
  \<open>OSError\<close>; if it returns, so does \<open>doLAT\<close>, whatever the arguments, after the same four
  operations, each once: \<open>os.system\<close> for \<open>mkdir -p\<close>, \<open>os.chdir\<close>, \<open>print\<close>, \<open>os.system\<close>
  for the script. \<open>createSrcModel\<close> never ends in an error of its own, and it has one way
  through as well: whatever the arguments and whichever library calls raise, the calls it
  makes are its sixteen library calls in the order of its statements, each once, up to the
  first that raises; if none raises it returns the source, and if one raises it ends with
  that exception right there, with no call after it (nothing is caught, nothing is tried
  again).
\<close>
theorem helpers_straight_line:
  "(resolve_dir E
       (snd (shell E (''mkdir -p '' @ analysis_dir_name (float_str E) OUTFILE EMIN EMAX)
               (cwd w) (files w)))
       (cwd w) (analysis_dir_name (float_str E) OUTFILE EMIN EMAX) = None \<longrightarrow>
     doLAT E OUTFILE RA DEC TSTARTS TSTOPS ROI ZMAX EMIN EMAX IRF data_path w = Inl OSError)
   \<and> (resolve_dir E
       (snd (shell E (''mkdir -p '' @ analysis_dir_name (float_str E) OUTFILE EMIN EMAX)
               (cwd w) (files w)))
       (cwd w) (analysis_dir_name (float_str E) OUTFILE EMIN EMAX) = Some d \<longrightarrow>
     (\<exists>w'. doLAT E OUTFILE RA DEC TSTARTS TSTOPS ROI ZMAX EMIN EMAX IRF data_path w
            = Inr (analysis_dir_name (float_str E) OUTFILE EMIN EMAX, w')
          \<and> drop (length (trace w)) (trace w') =
              [System (''mkdir -p '' @ analysis_dir_name (float_str E) OUTFILE EMIN EMAX),
               Chdir (analysis_dir_name (float_str E) OUTFILE EMIN EMAX),
               Print (doLAT_command (float_str E) (dict_items E) OUTFILE RA DEC TSTARTS TSTOPS
                        ROI ZMAX EMIN EMAX IRF data_path),
               System (doLAT_command (float_str E) (dict_items E) OUTFILE RA DEC TSTARTS TSTOPS
                        ROI ZMAX EMIN EMAX IRF data_path)]))
   \<and> \<not> isl (createSrcModel L src_name ra dec redshift index)
   \<and> createSrcModel_calls raises L src_name ra dec redshift index =
       (case first_raise raises (createSrcModel_ops src_name ra dec redshift index) of
          None \<Rightarrow> (createSrcModel_ops src_name ra dec redshift index,
                   createSrcModel L src_name ra dec redshift index)
        | Some (made, e) \<Rightarrow> (made, Inl e))"
  by (simp only: createSrcModel_calls_eq simp_thms) (simp add: doLAT_unfold createSrcModel_eq)

text \<open>The witness: a shell whose \<open>mkdir -p\<close> makes nothing, so that \<open>os.chdir\<close> raises, and
  the example shell, where it returns.\<close>

theorem helpers_straight_line_witness:
  "doLAT ((example_env 0 one_match)\<lparr>shell := \<lambda>command dir fs. (1, fs)\<rparr>)
         (PyStr ''bn080916009'') (PyFloat 119.889999) (PyFloat (- 56.700001)) [PyFloat 3.03]
         [PyFloat 1531.780029] (PyFloat 5) (PyInt 105) (PyInt 65) (PyInt 100000)
         (PyStr ''p8_transient010e'') (PyStr ''./'') start_world = Inl OSError
   \<and> (\<exists>w'. doLAT (example_env 0 one_match)
         (PyStr ''bn080916009'') (PyFloat 119.889999) (PyFloat (- 56.700001)) [PyFloat 3.03]
         [PyFloat 1531.780029] (PyFloat 5) (PyInt 105) (PyInt 65) (PyInt 100000)
         (PyStr ''p8_transient010e'') (PyStr ''./'') start_world
          = Inr (''bn080916009_analysis_65-100000'', w')
        \<and> trace w' =
            [System ''mkdir -p bn080916009_analysis_65-100000'',
             Chdir ''bn080916009_analysis_65-100000'',
             Print stored_command_1, System stored_command_1])
   \<and> \<not> isl (createSrcModel example_lib ''bn080916009'' 119.889999 (- 56.700001) 4.350 (- 2.072603))
   \<and> createSrcModel_calls all_return example_lib ''bn080916009'' 119.889999 (- 56.700001)
        4.350 (- 2.072603)
      = ([Construct ''Powerlaw'',
          Make_prior (Uniform_prior (- 5) 5),
          Set_prior ''powerlaw.index'' (Uniform_prior (- 5) 5),
          Make_prior (Log_uniform_prior (1 / 10 ^ 20) (1 / 10 ^ 10)),
          Set_prior ''powerlaw.K'' (Log_uniform_prior (1 / 10 ^ 20) (1 / 10 ^ 10)),
          Set_value ''powerlaw.piv'' 500000,
          Set_value ''powerlaw.index'' (- 2.072603),
          Set_free ''powerlaw.index'' False,
          Construct ''EBLattenuation'',
          Make_prior (Uniform_prior 0 2),
          Set_prior ''ebl.attenuation'' (Uniform_prior 0 2),
          Set_fix ''ebl.attenuation'' False,
          Multiply,
          Make_quantity 4.350,
          Set_value ''source.redshift_2'' 4.350,
          Construct_PointSource ''bn080916009'' 119.889999 (- 56.700001)],
         createSrcModel example_lib ''bn080916009'' 119.889999 (- 56.700001) 4.350 (- 2.072603))
   \<and> createSrcModel_calls no_EBLattenuation example_lib ''bn080916009'' 119.889999 (- 56.700001)
        4.350 (- 2.072603)
      = ([Construct ''Powerlaw'',
          Make_prior (Uniform_prior (- 5) 5),
          Set_prior ''powerlaw.index'' (Uniform_prior (- 5) 5),
          Make_prior (Log_uniform_prior (1 / 10 ^ 20) (1 / 10 ^ 10)),
          Set_prior ''powerlaw.K'' (Log_uniform_prior (1 / 10 ^ 20) (1 / 10 ^ 10)),
          Set_value ''powerlaw.piv'' 500000,
          Set_value ''powerlaw.index'' (- 2.072603),
          Set_free ''powerlaw.index'' False,
          Construct ''EBLattenuation''],
         Inl AttributeError)"
proof -
  have a: "analysis_dir_name stored_float_str (PyStr ''bn080916009'') (PyInt 65) (PyInt 100000)
           = ''bn080916009_analysis_65-100000''"
    by (simp add: analysis_dir_name_def str_int_def str_nat.simps digit_char_def)
  have n: "resolve_dir ((example_env 0 one_match)\<lparr>shell := \<lambda>command dir fs. (1, fs)\<rparr>)
       (snd (shell ((example_env 0 one_match)\<lparr>shell := \<lambda>command dir fs. (1, fs)\<rparr>)
           (''mkdir -p '' @ analysis_dir_name
              (float_str ((example_env 0 one_match)\<lparr>shell := \<lambda>command dir fs. (1, fs)\<rparr>))
              (PyStr ''bn080916009'') (PyInt 65) (PyInt 100000))
           (cwd start_world) (files start_world)))
       (cwd start_world)
       (analysis_dir_name
          (float_str ((example_env 0 one_match)\<lparr>shell := \<lambda>command dir fs. (1, fs)\<rparr>))
          (PyStr ''bn080916009'') (PyInt 65) (PyInt 100000)) = None"
    by (simp add: example_env_def example_resolve_def start_world_def)
  have s: "resolve_dir (example_env 0 one_match)
       (snd (shell (example_env 0 one_match)
           (''mkdir -p '' @ analysis_dir_name (float_str (example_env 0 one_match))
              (PyStr ''bn080916009'') (PyInt 65) (PyInt 100000))
           (cwd start_world) (files start_world)))
       (cwd start_world)
       (analysis_dir_name (float_str (example_env 0 one_match))
          (PyStr ''bn080916009'') (PyInt 65) (PyInt 100000))
      = Some ''/home/user/work/bn080916009_analysis_65-100000''"
    by (simp only: example_env_sel a) (simp add: example_shell_def example_resolve_def start_world_def)
  note t1 = helpers_straight_line [where E = "(example_env 0 one_match)\<lparr>shell := \<lambda>command dir fs. (1, fs)\<rparr>"
      and OUTFILE = "PyStr ''bn080916009''" and RA = "PyFloat 119.889999"
      and DEC = "PyFloat (- 56.700001)" and TSTARTS = "[PyFloat 3.03]"
      and TSTOPS = "[PyFloat 1531.780029]" and ROI = "PyFloat 5" and ZMAX = "PyInt 105"
      and EMIN = "PyInt 65" and EMAX = "PyInt 100000" and IRF = "PyStr ''p8_transient010e''"
      and data_path = "PyStr ''./''" and w = start_world
      and raises = no_EBLattenuation
      and L = example_lib and src_name = "''bn080916009''" and ra = "119.889999"
      and dec = "- 56.700001" and redshift = "4.350" and index = "- 2.072603"]
  note t2 = helpers_straight_line [where E = "example_env 0 one_match"
      and OUTFILE = "PyStr ''bn080916009''" and RA = "PyFloat 119.889999"
      and DEC = "PyFloat (- 56.700001)" and TSTARTS = "[PyFloat 3.03]"
      and TSTOPS = "[PyFloat 1531.780029]" and ROI = "PyFloat 5" and ZMAX = "PyInt 105"
      and EMIN = "PyInt 65" and EMAX = "PyInt 100000" and IRF = "PyStr ''p8_transient010e''"
      and data_path = "PyStr ''./''" and w = start_world
      and d = "''/home/user/work/bn080916009_analysis_65-100000''"
      and raises = all_return
      and L = example_lib and src_name = "''bn080916009''" and ra = "119.889999"
      and dec = "- 56.700001" and redshift = "4.350" and index = "- 2.072603"]
  from t1 [THEN conjunct1] n
  have 1: "doLAT ((example_env 0 one_match)\<lparr>shell := \<lambda>command dir fs. (1, fs)\<rparr>)
         (PyStr ''bn080916009'') (PyFloat 119.889999) (PyFloat (- 56.700001)) [PyFloat 3.03]
         [PyFloat 1531.780029] (PyFloat 5) (PyInt 105) (PyInt 65) (PyInt 100000)
         (PyStr ''p8_transient010e'') (PyStr ''./'') start_world = Inl OSError"
    by (rule mp)
  from t2 [THEN conjunct2, THEN conjunct1] s
  have "\<exists>w'. doLAT (example_env 0 one_match)
         (PyStr ''bn080916009'') (PyFloat 119.889999) (PyFloat (- 56.700001)) [PyFloat 3.03]
         [PyFloat 1531.780029] (PyFloat 5) (PyInt 105) (PyInt 65) (PyInt 100000)
         (PyStr ''p8_transient010e'') (PyStr ''./'') start_world
          = Inr (analysis_dir_name (float_str (example_env 0 one_match)) (PyStr ''bn080916009'')
                   (PyInt 65) (PyInt 100000), w')
        \<and> drop (length (trace start_world)) (trace w') =
            [System (''mkdir -p '' @ analysis_dir_name (float_str (example_env 0 one_match))
                       (PyStr ''bn080916009'') (PyInt 65) (PyInt 100000)),
             Chdir (analysis_dir_name (float_str (example_env 0 one_match)) (PyStr ''bn080916009'')
                       (PyInt 65) (PyInt 100000)),
             Print (doLAT_command (float_str (example_env 0 one_match))
                      (dict_items (example_env 0 one_match)) (PyStr ''bn080916009'')
                      (PyFloat 119.889999) (PyFloat (- 56.700001)) [PyFloat 3.03]
                      [PyFloat 1531.780029] (PyFloat 5) (PyInt 105) (PyInt 65) (PyInt 100000)
                      (PyStr ''p8_transient010e'') (PyStr ''./'')),
             System (doLAT_command (float_str (example_env 0 one_match))
                      (dict_items (example_env 0 one_match)) (PyStr ''bn080916009'')
                      (PyFloat 119.889999) (PyFloat (- 56.700001)) [PyFloat 3.03]
                      [PyFloat 1531.780029] (PyFloat 5) (PyInt 105) (PyInt 65) (PyInt 100000)
                      (PyStr ''p8_transient010e'') (PyStr ''./''))]"
    by (rule mp)
  then have 2: "\<exists>w'. doLAT (example_env 0 one_match)
         (PyStr ''bn080916009'') (PyFloat 119.889999) (PyFloat (- 56.700001)) [PyFloat 3.03]
         [PyFloat 1531.780029] (PyFloat 5) (PyInt 105) (PyInt 65) (PyInt 100000)
         (PyStr ''p8_transient010e'') (PyStr ''./'') start_world
          = Inr (''bn080916009_analysis_65-100000'', w')
        \<and> trace w' =
            [System ''mkdir -p bn080916009_analysis_65-100000'',
             Chdir ''bn080916009_analysis_65-100000'',
             Print stored_command_1, System stored_command_1]"
    by (simp only: example_env_sel a stored_command_first) (simp add: start_world_def)
  from t2 [THEN conjunct2, THEN conjunct2, THEN conjunct1]
  have 3: "\<not> isl (createSrcModel example_lib ''bn080916009'' 119.889999 (- 56.700001) 4.350 (- 2.072603))" .
  have 4: "createSrcModel_calls all_return example_lib ''bn080916009'' 119.889999 (- 56.700001)
        4.350 (- 2.072603)
      = (createSrcModel_ops ''bn080916009'' 119.889999 (- 56.700001) 4.350 (- 2.072603),
         createSrcModel example_lib ''bn080916009'' 119.889999 (- 56.700001) 4.350 (- 2.072603))"
    by (simp only: t2 [THEN conjunct2, THEN conjunct2, THEN conjunct2])
       (simp add: createSrcModel_ops_def)
  have 5: "createSrcModel_calls no_EBLattenuation example_lib ''bn080916009'' 119.889999 (- 56.700001)
        4.350 (- 2.072603)
      = ([Construct ''Powerlaw'',
          Make_prior (Uniform_prior (- 5) 5),
          Set_prior ''powerlaw.index'' (Uniform_prior (- 5) 5),
          Make_prior (Log_uniform_prior (1 / 10 ^ 20) (1 / 10 ^ 10)),
          Set_prior ''powerlaw.K'' (Log_uniform_prior (1 / 10 ^ 20) (1 / 10 ^ 10)),
          Set_value ''powerlaw.piv'' 500000,
          Set_value ''powerlaw.index'' (- 2.072603),
          Set_free ''powerlaw.index'' False,
          Construct ''EBLattenuation''],
         Inl AttributeError)"
    by (simp only: t1 [THEN conjunct2, THEN conjunct2, THEN conjunct2])
       (simp add: createSrcModel_ops_def)
  from 4 have c4: "createSrcModel_calls all_return example_lib ''bn080916009'' 119.889999 (- 56.700001)
        4.350 (- 2.072603)
      = ([Construct ''Powerlaw'',
          Make_prior (Uniform_prior (- 5) 5),
          Set_prior ''powerlaw.index'' (Uniform_prior (- 5) 5),
          Make_prior (Log_uniform_prior (1 / 10 ^ 20) (1 / 10 ^ 10)),
          Set_prior ''powerlaw.K'' (Log_uniform_prior (1 / 10 ^ 20) (1 / 10 ^ 10)),
          Set_value ''powerlaw.piv'' 500000,
          Set_value ''powerlaw.index'' (- 2.072603),
          Set_free ''powerlaw.index'' False,
          Construct ''EBLattenuation'',
          Make_prior (Uniform_prior 0 2),
          Set_prior ''ebl.attenuation'' (Uniform_prior 0 2),
          Set_fix ''ebl.attenuation'' False,
          Multiply,
          Make_quantity 4.350,
          Set_value ''source.redshift_2'' 4.350,
          Construct_PointSource ''bn080916009'' 119.889999 (- 56.700001)],
         createSrcModel example_lib ''bn080916009'' 119.889999 (- 56.700001) 4.350 (- 2.072603))"
    by (simp only: createSrcModel_ops_def)
  from 1 2 3 c4 5 show ?thesis by (intro conjI)
qed

text \<open>
  C10, as amended. When \<open>os.chdir\<close> finds the directory \<open><OUTFILE>_analysis_<EMIN>-<EMAX>\<close> after
  \<open>mkdir -p\<close> and arrives in \<open>d\<close>, \<open>doLAT\<close> returns the name of that directory and leaves
  the working directory at \<open>d\<close>: the first thing it does is \<open>mkdir -p\<close> of the directory, and
  the \<open>os.chdir\<close> into it is the only one, so nothing changes back.
\<close>
theorem doLAT_changes_directory:
  assumes "resolve_dir E
       (snd (shell E (''mkdir -p '' @ py_str (float_str E) OUTFILE @ ''_analysis_''
                        @ py_str (float_str E) EMIN @ ''-'' @ py_str (float_str E) EMAX)
               (cwd w) (files w)))
       (cwd w)
       (py_str (float_str E) OUTFILE @ ''_analysis_'' @ py_str (float_str E) EMIN @ ''-''
          @ py_str (float_str E) EMAX) = Some d"
  shows "\<exists>w'. doLAT E OUTFILE RA DEC TSTARTS TSTOPS ROI ZMAX EMIN EMAX IRF data_path w
            = Inr (py_str (float_str E) OUTFILE @ ''_analysis_'' @ py_str (float_str E) EMIN
                     @ ''-'' @ py_str (float_str E) EMAX, w')
          \<and> cwd w' = d
          \<and> hd (drop (length (trace w)) (trace w'))
              = System (''mkdir -p '' @ py_str (float_str E) OUTFILE @ ''_analysis_''
                          @ py_str (float_str E) EMIN @ ''-'' @ py_str (float_str E) EMAX)
          \<and> filter is_chdir (drop (length (trace w)) (trace w'))
              = [Chdir (py_str (float_str E) OUTFILE @ ''_analysis_'' @ py_str (float_str E) EMIN
                          @ ''-'' @ py_str (float_str E) EMAX)]"
  using assms by (simp add: doLAT_unfold analysis_dir_name_def)

theorem doLAT_changes_directory_witness:
  "example_resolve (snd (example_shell 0 ''mkdir -p bn080916009_analysis_65-100000''
       ''/home/user/work'' [])) ''/home/user/work'' ''bn080916009_analysis_65-100000''
     = Some ''/home/user/work/bn080916009_analysis_65-100000''
   \<and> (\<exists>w'. doLAT (example_env 0 one_match)
         (PyStr ''bn080916009'') (PyFloat 119.889999) (PyFloat (- 56.700001)) [PyFloat 3.03]
         [PyFloat 1531.780029] (PyFloat 5) (PyInt 105) (PyInt 65) (PyInt 100000)
         (PyStr ''p8_transient010e'') (PyStr ''./'') start_world
          = Inr (''bn080916009_analysis_65-100000'', w')
        \<and> cwd w' = ''/home/user/work/bn080916009_analysis_65-100000'')"
proof -
  have p: "py_str (float_str (example_env 0 one_match)) (PyStr ''bn080916009'') @ ''_analysis_''
        @ py_str (float_str (example_env 0 one_match)) (PyInt 65) @ ''-''
        @ py_str (float_str (example_env 0 one_match)) (PyInt 100000)
      = ''bn080916009_analysis_65-100000''"
    by (simp add: str_int_def str_nat.simps digit_char_def)
  have h: "example_resolve (snd (example_shell 0 ''mkdir -p bn080916009_analysis_65-100000''
       ''/home/user/work'' [])) ''/home/user/work'' ''bn080916009_analysis_65-100000''
     = Some ''/home/user/work/bn080916009_analysis_65-100000''"
    by (simp add: example_shell_def example_resolve_def)
  have s: "resolve_dir (example_env 0 one_match)
       (snd (shell (example_env 0 one_match)
          (''mkdir -p '' @ py_str (float_str (example_env 0 one_match)) (PyStr ''bn080916009'')
             @ ''_analysis_'' @ py_str (float_str (example_env 0 one_match)) (PyInt 65) @ ''-''
             @ py_str (float_str (example_env 0 one_match)) (PyInt 100000))
          (cwd start_world) (files start_world)))
       (cwd start_world)
       (py_str (float_str (example_env 0 one_match)) (PyStr ''bn080916009'') @ ''_analysis_''
          @ py_str (float_str (example_env 0 one_match)) (PyInt 65) @ ''-''
          @ py_str (float_str (example_env 0 one_match)) (PyInt 100000))
      = Some ''/home/user/work/bn080916009_analysis_65-100000''"
    unfolding p using h by (simp add: example_env_sel start_world_def)
  from doLAT_changes_directory [OF s, of "PyFloat 119.889999" "PyFloat (- 56.700001)"
      "[PyFloat 3.03]" "[PyFloat 1531.780029]" "PyFloat 5" "PyInt 105"
      "PyStr ''p8_transient010e''" "PyStr ''./''"]
  have "\<exists>w'. doLAT (example_env 0 one_match)
         (PyStr ''bn080916009'') (PyFloat 119.889999) (PyFloat (- 56.700001)) [PyFloat 3.03]
         [PyFloat 1531.780029] (PyFloat 5) (PyInt 105) (PyInt 65) (PyInt 100000)
         (PyStr ''p8_transient010e'') (PyStr ''./'') start_world
          = Inr (''bn080916009_analysis_65-100000'', w')
        \<and> cwd w' = ''/home/user/work/bn080916009_analysis_65-100000''"
    unfolding p by blast
  with h show ?thesis by blast
qed

text \<open>C10 as stated fails: not every call changes the working directory and returns the
  name. Where \<open>mkdir -p\<close> makes nothing, \<open>os.chdir\<close> raises and the first call of the
  notebook ends in \<open>OSError\<close>, with nothing returned, and the working directory is
  still the old one when \<open>os.chdir\<close> raises.\<close>

theorem doLAT_changes_directory_counterexample:
  "doLAT idle_env (PyStr ''bn080916009'') (PyFloat 119.889999) (PyFloat (- 56.700001))
     [PyFloat 3.03] [PyFloat 1531.780029] (PyFloat 5) (PyInt 105) (PyInt 65) (PyInt 100000)
     (PyStr ''p8_transient010e'') (PyStr ''./'') start_world = Inl OSError
   \<and> os_chdir idle_env ''bn080916009_analysis_65-100000''
       (snd (os_system idle_env ''mkdir -p bn080916009_analysis_65-100000'' start_world))
     = Inl OSError
   \<and> cwd (snd (os_system idle_env ''mkdir -p bn080916009_analysis_65-100000'' start_world))
     = ''/home/user/work''"
  by (simp add: doLAT_unfold os_chdir_def os_system_def idle_env_def idle_shell_def example_env_def
        example_resolve_def start_world_def)

end
